theory Spec2Isabelle
  imports Main "HOL-Library.Sublist"
begin

section \<open>The lexer: grammar/BaliTokens.g4 and the literal tokens of the generated parser\<close>

text \<open>
  A token rule of the grammar is a regular expression. \<open>rems r s\<close> lists what is left of
  \<open>s\<close> after each way of matching a prefix of \<open>s\<close> against \<open>r\<close>. \<open>Lazy b r\<close> is the
  non-greedy loop \<open>b*? r\<close> of the grammar: the loop is left at the first position where
  \<open>r\<close> matches. The lexer takes, at each position, the rule with the longest match and,
  among rules with the same length, the one declared first.
\<close>

datatype rx =
    Eps
  | Chr char
  | Str string
  | Rng char char
  | Any
  | Seq rx rx
  | Alt rx rx
  | Opt rx
  | Star rx
  | Lazy rx rx

definition in_range :: "char \<Rightarrow> char \<Rightarrow> char \<Rightarrow> bool" where
  "in_range a b c = ((of_char a :: nat) \<le> of_char c \<and> (of_char c :: nat) \<le> of_char b)"

fun star_rems :: "(string \<Rightarrow> string list) \<Rightarrow> nat \<Rightarrow> string \<Rightarrow> string list" where
  "star_rems m 0 s = [s]"
| "star_rems m (Suc n) s =
     s # concat (map (star_rems m n) (filter (\<lambda>r. length r < length s) (m s)))"

fun lazy_rems ::
  "(string \<Rightarrow> string list) \<Rightarrow> (string \<Rightarrow> string list) \<Rightarrow> nat \<Rightarrow> string \<Rightarrow> string list" where
  "lazy_rems mb mr 0 s = mr s"
| "lazy_rems mb mr (Suc n) s =
     (case mr s of
        [] \<Rightarrow> concat (map (lazy_rems mb mr n) (filter (\<lambda>r. length r < length s) (mb s)))
      | r # rs \<Rightarrow> r # rs)"

primrec rems :: "rx \<Rightarrow> string \<Rightarrow> string list" where
  "rems Eps s = [s]"
| "rems (Chr c) s = (case s of [] \<Rightarrow> [] | x # xs \<Rightarrow> if x = c then [xs] else [])"
| "rems (Str w) s = (if take (length w) s = w then [drop (length w) s] else [])"
| "rems (Rng a b) s = (case s of [] \<Rightarrow> [] | x # xs \<Rightarrow> if in_range a b x then [xs] else [])"
| "rems Any s = (case s of [] \<Rightarrow> [] | x # xs \<Rightarrow> [xs])"
| "rems (Seq r1 r2) s = concat (map (rems r2) (rems r1 s))"
| "rems (Alt r1 r2) s = rems r1 s @ rems r2 s"
| "rems (Opt r) s = rems r s @ [s]"
| "rems (Star r) s = star_rems (rems r) (length s) s"
| "rems (Lazy b r) s = lazy_rems (rems b) (rems r) (length s) s"

definition matches :: "rx \<Rightarrow> string \<Rightarrow> bool" where
  "matches r s = ([] \<in> set (rems r s))"

definition longest :: "rx \<Rightarrow> string \<Rightarrow> nat" where
  "longest r s =
     (case rems r s of
        [] \<Rightarrow> 0
      | rest # rests \<Rightarrow> length s - fold min (map length rests) (length rest))"

fun seqs :: "rx list \<Rightarrow> rx" where
  "seqs [] = Eps"
| "seqs [r] = r"
| "seqs (r # rs) = Seq r (seqs rs)"

subsection \<open>Fragments\<close>

definition digit :: rx where "digit = Rng CHR ''0'' CHR ''9''"
definition letter :: rx where "letter = Alt (Rng CHR ''a'' CHR ''z'') (Rng CHR ''A'' CHR ''Z'')"

definition CHARACTER :: rx where "CHARACTER = Any"
definition NEWLINE_rx :: rx where "NEWLINE_rx = Seq (Opt (Chr (char_of (13::nat)))) (Chr (char_of (10::nat)))"
definition SPACE_rx :: rx where
  "SPACE_rx = Alt (Rng (char_of (9::nat)) (char_of (13::nat))) (Chr CHR '' '')"
definition LINE :: rx where "LINE = Lazy CHARACTER NEWLINE_rx"
definition NATURAL :: rx where "NATURAL = Seq (Rng CHR ''1'' CHR ''9'') (Star digit)"
definition INTEGER :: rx where "INTEGER = Alt (Chr CHR ''0'') (Seq (Opt (Chr CHR ''-'')) NATURAL)"
definition FRACTION_rx :: rx where
  "FRACTION_rx = Seq (Chr CHR ''.'') (Seq (Star digit) (Rng CHR ''1'' CHR ''9''))"
definition SPAN :: rx where "SPAN = Seq NATURAL (Opt FRACTION_rx)"
definition IDENTIFIER_rx :: rx where "IDENTIFIER_rx = Seq letter (Star (Alt letter digit))"
definition SCHEME :: rx where
  "SCHEME = Seq letter (Star (Alt letter (Alt digit
     (Alt (Chr CHR ''+'') (Alt (Chr CHR ''-'') (Chr CHR ''.''))))))"
definition CONTEXT :: rx where
  "CONTEXT = Star (Alt (Rng CHR ''!'' CHR ''='') (Rng CHR ''?'' CHR ''~''))"
definition YEARS :: rx where "YEARS = INTEGER"
definition MONTHS :: rx where
  "MONTHS = Alt (Seq (Chr CHR ''0'') digit) (Seq (Chr CHR ''1'') (Rng CHR ''0'' CHR ''2''))"
definition DAYS :: rx where
  "DAYS = Alt (Seq (Rng CHR ''0'' CHR ''2'') digit) (Seq (Chr CHR ''3'') (Rng CHR ''0'' CHR ''1''))"
definition HOURS :: rx where
  "HOURS = Alt (Seq (Rng CHR ''0'' CHR ''1'') digit) (Seq (Chr CHR ''2'') (Rng CHR ''0'' CHR ''3''))"
definition MINUTES :: rx where "MINUTES = Seq (Rng CHR ''0'' CHR ''5'') digit"
definition SECONDS :: rx where "SECONDS = Alt (Seq (Rng CHR ''0'' CHR ''5'') digit) (Str ''60'')"
definition BASE16 :: rx where "BASE16 = Alt digit (Rng CHR ''A'' CHR ''F'')"
definition BASE32 :: rx where
  "BASE32 = Alt digit (Alt (Rng CHR ''A'' CHR ''D'') (Alt (Rng CHR ''F'' CHR ''H'')
     (Alt (Rng CHR ''J'' CHR ''N'') (Alt (Rng CHR ''P'' CHR ''T'') (Rng CHR ''V'' CHR ''Z'')))))"
definition BASE64 :: rx where
  "BASE64 = Alt digit (Alt (Rng CHR ''A'' CHR ''Z'') (Alt (Rng CHR ''a'' CHR ''z'')
     (Alt (Chr CHR ''+'') (Chr CHR ''/''))))"
definition ESCAPE :: rx where
  "ESCAPE = Seq (Chr (char_of (92::nat)))
     (Alt (Seq (Chr CHR ''u'') (Seq BASE16 (Star BASE16)))
     (Alt (Chr CHR ''b'') (Alt (Chr CHR ''f'') (Alt (Chr CHR ''r'') (Alt (Chr CHR ''n'')
     (Alt (Chr CHR ''t'') (Alt (Chr (char_of (34::nat))) (Chr (char_of (92::nat))))))))))"

subsection \<open>Token rules, in the order of the grammar\<close>

definition SHELL_rx :: rx where "SHELL_rx = Seq (Str ''^#!'') LINE"
definition TAG_rx :: rx where "TAG_rx = Seq (Chr CHR ''#'') (Star BASE32)"
definition SYMBOL_rx :: rx where "SYMBOL_rx = Seq (Chr CHR ''$'') IDENTIFIER_rx"
definition CONSTANT_rx :: rx where "CONSTANT_rx = Alt (Str ''e'') (Alt (Str ''pi'') (Str ''phi''))"
definition FLOAT_rx :: rx where
  "FLOAT_rx = Seq (Alt (Seq INTEGER (Opt FRACTION_rx)) (Seq (Str ''-0'') FRACTION_rx))
                  (Opt (Seq (Chr CHR ''E'') INTEGER))"
definition MOMENT_rx :: rx where
  "MOMENT_rx = seqs [Chr CHR ''<'', YEARS,
     Opt (seqs [Chr CHR ''-'', MONTHS,
       Opt (seqs [Chr CHR ''-'', DAYS,
         Opt (seqs [Chr CHR ''T'', HOURS,
           Opt (seqs [Chr CHR '':'', MINUTES,
             Opt (seqs [Chr CHR '':'', SECONDS, Opt FRACTION_rx])])])])]),
     Chr CHR ''>'']"
definition DURATION_rx :: rx where
  "DURATION_rx = Alt
     (seqs [Str ''~P'', SPAN, Chr CHR ''W''])
     (seqs [Str ''~P'', Opt (Seq SPAN (Chr CHR ''Y'')), Opt (Seq SPAN (Chr CHR ''M'')),
        Opt (Seq SPAN (Chr CHR ''D'')),
        Opt (seqs [Chr CHR ''T'', Opt (Seq SPAN (Chr CHR ''H'')), Opt (Seq SPAN (Chr CHR ''M'')),
           Opt (Seq SPAN (Chr CHR ''S''))])])"
definition RESOURCE_rx :: rx where
  "RESOURCE_rx = seqs [Chr CHR ''<'', SCHEME, Chr CHR '':'', CONTEXT, Chr CHR ''>'']"
definition VERSION_rx :: rx where
  "VERSION_rx = Seq (Chr CHR ''v'') (Seq NATURAL (Star (Seq (Chr CHR ''.'') NATURAL)))"
definition BINARY_rx :: rx where
  "BINARY_rx = seqs [Chr (char_of (39::nat)), Star (Alt BASE64 SPACE_rx),
     Opt (Seq (Chr CHR ''='') (Opt (Chr CHR ''=''))), Star SPACE_rx, Chr (char_of (39::nat))]"
definition TEXT_BLOCK_rx :: rx where
  "TEXT_BLOCK_rx = seqs [Chr (char_of (34::nat)), NEWLINE_rx,
     Lazy CHARACTER (seqs [NEWLINE_rx, Star SPACE_rx, Chr (char_of (34::nat))])]"
definition TEXT_rx :: rx where
  "TEXT_rx = Seq (Chr (char_of (34::nat))) (Lazy (Alt ESCAPE CHARACTER) (Chr (char_of (34::nat))))"

text \<open>
  Token types. \<open>T k\<close> is the literal token \<open>T__k\<close> of the generated parser, whose text
  \<open>literalNames\<close> gives; \<open>LEXERR\<close> stands for the position at which no token
  rule matches, where the lexer's \<open>recover\<close> throws.
\<close>

datatype kind =
    T nat
  | SHELL | TAG | SYMBOL | FRACTION | CONSTANT | FLOAT | MOMENT | DURATION | RESOURCE
  | VERSION | BINARY | TEXT_BLOCK | TEXT | IDENTIFIER | NEWLINE | SPACE
  | EOF | LEXERR

type_synonym token = "kind \<times> string"

definition literalNames :: "(kind \<times> string) list" where
  "literalNames =
    [(T 0, ''[''), (T 1, '']''), (T 2, ''(''), (T 3, '')''), (T 4, ''..''), (T 5, '',''),
     (T 6, '':''), (T 7, ''{''), (T 8, ''}''), (T 9, '';''), (T 10, ''handle''),
     (T 11, ''matching''), (T 12, ''with''), (T 13, ''finish''), (T 14, '':=''),
     (T 15, ''checkout''), (T 16, ''from''), (T 17, ''save''), (T 18, ''to''),
     (T 19, ''discard''), (T 20, ''commit''), (T 21, ''publish''), (T 22, ''queue''),
     (T 23, ''on''), (T 24, ''wait''), (T 25, ''for''), (T 26, ''if''), (T 27, ''then''),
     (T 28, ''else''), (T 29, ''select''), (T 30, ''do''), (T 31, ''while''), (T 32, ''each''),
     (T 33, ''in''), (T 34, ''continue''), (T 35, ''break''), (T 36, ''return''),
     (T 37, ''throw''), (T 38, ''@''), (T 39, ''.''), (T 40, ''!''), (T 41, ''^''),
     (T 42, ''-''), (T 43, ''/''), (T 44, ''*''), (T 45, ''//''), (T 46, ''+''), (T 47, ''|''),
     (T 48, ''<''), (T 49, ''=''), (T 50, ''>''), (T 51, ''is''), (T 52, ''matches''),
     (T 53, ''not''), (T 54, ''and''), (T 55, ''sans''), (T 56, ''xor''), (T 57, ''or''),
     (T 58, ''?''), (T 59, ''i''), (T 60, ''undefined''), (T 61, ''infinity''), (T 62, ''e^''),
     (T 63, ''%''), (T 64, ''true''), (T 65, ''false''), (T 66, ''none''), (T 67, ''any'')]"

definition tokenRules :: "(kind \<times> rx) list" where
  "tokenRules =
     map (\<lambda>(k, w). (k, Str w)) literalNames @
     [(SHELL, SHELL_rx), (TAG, TAG_rx), (SYMBOL, SYMBOL_rx), (FRACTION, FRACTION_rx),
      (CONSTANT, CONSTANT_rx), (FLOAT, FLOAT_rx), (MOMENT, MOMENT_rx), (DURATION, DURATION_rx),
      (RESOURCE, RESOURCE_rx), (VERSION, VERSION_rx), (BINARY, BINARY_rx),
      (TEXT_BLOCK, TEXT_BLOCK_rx), (TEXT, TEXT_rx), (IDENTIFIER, IDENTIFIER_rx),
      (NEWLINE, NEWLINE_rx), (SPACE, SPACE_rx)]"

fun better :: "kind \<times> nat \<Rightarrow> kind \<times> nat \<Rightarrow> kind \<times> nat" where
  "better (k, n) (k0, n0) = (if n0 < n then (k, n) else (k0, n0))"

fun pick :: "(kind \<times> rx) list \<Rightarrow> string \<Rightarrow> kind \<times> nat \<Rightarrow> kind \<times> nat" where
  "pick [] s best = best"
| "pick ((k, r) # rules) s best = pick rules s (better (k, longest r s) best)"

text \<open>
  The next token under the given rules, and the tokens of a text. A character that no
  rule matches ends the token stream with the lexer's error.
\<close>

definition nextToken :: "(kind \<times> rx) list \<Rightarrow> string \<Rightarrow> (kind \<times> nat) option" where
  "nextToken rules s = (case pick rules s (LEXERR, 0) of
      (k, 0) \<Rightarrow> None
    | (k, Suc n) \<Rightarrow> Some (k, Suc n))"

function scan :: "(kind \<times> rx) list \<Rightarrow> string \<Rightarrow> token list" where
  "scan rules [] = [(EOF, ''<EOF>'')]"
| "scan rules (c # cs) =
     (case nextToken rules (c # cs) of
        None \<Rightarrow> [(LEXERR, [c])]
      | Some (k, n) \<Rightarrow> (k, take n (c # cs)) # scan rules (drop n (c # cs)))"
  by pat_completeness auto
termination
  by (relation "measure (\<lambda>(rules, s). length s)")
     (auto simp: nextToken_def split: prod.splits nat.splits)

text \<open>\<open>SPACE\<close> is on the hidden channel: the parser's token stream skips it.\<close>

definition tokenize :: "string \<Rightarrow> token list" where
  "tokenize s = filter (\<lambda>t. fst t \<noteq> SPACE) (scan tokenRules s)"

section \<open>The parser: the generated BaliLanguageParser\<close>

subsection \<open>Parse trees, errors and the error strategy\<close>

text \<open>
  A rule context holds the name of its class (\<open>ctx.constructor.name\<close>), its labelled token (\<open>op\<close>, \<open>del\<close> or
  \<open>sign\<close>, when the rule sets one) and its children in order, terminal nodes included.
\<close>

datatype ctx = Rule string "token option" "ctx list" | Term token

text \<open>The rule indices of the generated parser.\<close>

type_synonym rule = nat

definition RULE_document :: rule where "RULE_document = 0"
definition RULE_component :: rule where "RULE_component = 1"
definition RULE_structure :: rule where "RULE_structure = 2"
definition RULE_parameters :: rule where "RULE_parameters = 3"
definition RULE_composite :: rule where "RULE_composite = 4"
definition RULE_range :: rule where "RULE_range = 5"
definition RULE_array :: rule where "RULE_array = 6"
definition RULE_table :: rule where "RULE_table = 7"
definition RULE_association :: rule where "RULE_association = 8"
definition RULE_task :: rule where "RULE_task = 9"
definition RULE_block :: rule where "RULE_block = 10"
definition RULE_procedure :: rule where "RULE_procedure = 11"
definition RULE_statement :: rule where "RULE_statement = 12"
definition RULE_handleClause :: rule where "RULE_handleClause = 13"
definition RULE_finishClause :: rule where "RULE_finishClause = 14"
definition RULE_evaluateClause :: rule where "RULE_evaluateClause = 15"
definition RULE_checkoutClause :: rule where "RULE_checkoutClause = 16"
definition RULE_saveClause :: rule where "RULE_saveClause = 17"
definition RULE_discardClause :: rule where "RULE_discardClause = 18"
definition RULE_commitClause :: rule where "RULE_commitClause = 19"
definition RULE_publishClause :: rule where "RULE_publishClause = 20"
definition RULE_queueClause :: rule where "RULE_queueClause = 21"
definition RULE_waitClause :: rule where "RULE_waitClause = 22"
definition RULE_ifClause :: rule where "RULE_ifClause = 23"
definition RULE_selectClause :: rule where "RULE_selectClause = 24"
definition RULE_whileClause :: rule where "RULE_whileClause = 25"
definition RULE_withClause :: rule where "RULE_withClause = 26"
definition RULE_continueClause :: rule where "RULE_continueClause = 27"
definition RULE_breakClause :: rule where "RULE_breakClause = 28"
definition RULE_returnClause :: rule where "RULE_returnClause = 29"
definition RULE_throwClause :: rule where "RULE_throwClause = 30"
definition RULE_label :: rule where "RULE_label = 31"
definition RULE_variable :: rule where "RULE_variable = 32"
definition RULE_indices :: rule where "RULE_indices = 33"
definition RULE_expression :: rule where "RULE_expression = 34"
definition RULE_invocation :: rule where "RULE_invocation = 35"
definition RULE_name :: rule where "RULE_name = 36"
definition RULE_element :: rule where "RULE_element = 37"
definition RULE_binary :: rule where "RULE_binary = 38"
definition RULE_duration :: rule where "RULE_duration = 39"
definition RULE_imaginary :: rule where "RULE_imaginary = 40"
definition RULE_moment :: rule where "RULE_moment = 41"
definition RULE_number :: rule where "RULE_number = 42"
definition RULE_percent :: rule where "RULE_percent = 43"
definition RULE_probability :: rule where "RULE_probability = 44"
definition RULE_real :: rule where "RULE_real = 45"
definition RULE_reference :: rule where "RULE_reference = 46"
definition RULE_symbol :: rule where "RULE_symbol = 47"
definition RULE_tag :: rule where "RULE_tag = 48"
definition RULE_template :: rule where "RULE_template = 49"
definition RULE_text :: rule where "RULE_text = 50"
definition RULE_version :: rule where "RULE_version = 51"

text \<open>
  The two errors that reach the caller are the \<open>Error\<close> objects thrown by the overridden
  \<open>recover\<close> of the lexer and of the error strategy. A recognition exception is what a
  rule method throws and its own \<open>catch\<close> block receives. A thrown error carries the
  lines printed on the console before it was thrown. \<open>OutOfFuel\<close> is not an outcome of the
  program: it marks a run of the model that was given too little fuel.
\<close>

datatype error = LexerError | ParserError

datatype recognition =
    NoViableAltException token
  | InputMismatchException token
  | FailedPredicateException token string

datatype signal = Recognition recognition | Thrown error "string list" | OutOfFuel

type_synonym 'a res = "signal + 'a"

definition bnd :: "'a res \<Rightarrow> ('a \<Rightarrow> 'b res) \<Rightarrow> 'b res" where
  "bnd m f = (case m of Inl e \<Rightarrow> Inl e | Inr x \<Rightarrow> f x)"

text \<open>
  \<open>BaliErrorListener.syntaxError\<close> prints only in debug mode. The model keeps the message
  line \<open>console.log(message.slice(0, 160))\<close>; the source lines echoed after it and the
  stack trace are left out.
\<close>

definition syntaxError :: "bool \<Rightarrow> string \<Rightarrow> string list" where
  "syntaxError debug message = (if debug then [take 160 message] else [])"

definition getTokenErrorDisplay :: "token \<Rightarrow> string" where
  "getTokenErrorDisplay t = (if fst t = EOF then ''<EOF>'' else [CHR 0x27] @ snd t @ [CHR 0x27])"

text \<open>
  \<open>BaliErrorStrategy.reportError\<close> reports only in debug mode; \<open>recover\<close> always throws,
  \<open>recoverInline\<close> is \<open>recover\<close>, and \<open>sync\<close> does nothing.
\<close>

definition reportError :: "bool \<Rightarrow> recognition \<Rightarrow> string list" where
  "reportError debug e =
     (if debug then
        (case e of
           NoViableAltException t \<Rightarrow>
             syntaxError debug (''PARSER: An invalid token was encountered: '' @ getTokenErrorDisplay t)
         | InputMismatchException t \<Rightarrow>
             syntaxError debug (''PARSER: A mismatched token was encountered: '' @ [CHR 0x22]
               @ getTokenErrorDisplay t @ [CHR 0x22])
         | FailedPredicateException t m \<Rightarrow>
             syntaxError debug (''PARSER: A predicate match failed for rule(expression): '' @ m))
      else [])"

definition recover :: "string list \<Rightarrow> 'a res" where
  "recover console = Inl (Thrown ParserError console)"

definition recoverInline :: "'r \<Rightarrow> 'a res" where
  "recoverInline recognizer = recover []"

text \<open>The \<open>catch\<close> block that every rule method has.\<close>

definition rule_catch :: "bool \<Rightarrow> 'a res \<Rightarrow> 'a res" where
  "rule_catch debug r =
     (case r of
        Inl (Recognition e) \<Rightarrow> recover (reportError debug e)
      | Inl s \<Rightarrow> Inl s
      | Inr x \<Rightarrow> Inr x)"

text \<open>
  The lexer reports an unmatched character to the listener and then its \<open>recover\<close> throws.
  The token stream asks the lexer for a token when the parser first looks at it.
\<close>

definition lexer_recover :: "bool \<Rightarrow> string \<Rightarrow> 'a res" where
  "lexer_recover debug c =
     Inl (Thrown LexerError
       (syntaxError debug (''LEXER: An unexpected character was encountered: '' @ [CHR 0x22] @ c
          @ [CHR 0x22])))"

fun LA :: "bool \<Rightarrow> nat \<Rightarrow> token list \<Rightarrow> kind res" where
  "LA debug k [] = Inr EOF"
| "LA debug k ((LEXERR, c) # ts) = lexer_recover debug c"
| "LA debug 0 (t # ts) = Inr (fst t)"
| "LA debug (Suc 0) (t # ts) = Inr (fst t)"
| "LA debug (Suc (Suc k)) (t # ts) = LA debug (Suc k) ts"

definition LT :: "token list \<Rightarrow> token" where
  "LT ts = (case ts of [] \<Rightarrow> (EOF, ''<EOF>'') | t # _ \<Rightarrow> t)"

subsection \<open>The state of a rule method\<close>

text \<open>
  A rule method builds its context while it consumes the input: the state is the children
  added so far, the labelled token, and the tokens not yet consumed.
\<close>

record pstate =
  children :: "ctx list"
  label :: "token option"
  input :: "token list"

type_synonym step = "pstate \<Rightarrow> pstate res"

text \<open>
  \<open>rec\<close> stands for the parser itself in the rule methods below: \<open>rec r p ts\<close> runs rule
  \<open>r\<close> (with precedence \<open>p\<close>, used by \<open>expression\<close> only) on the tokens \<open>ts\<close>.
\<close>

type_synonym parser = "rule \<Rightarrow> nat \<Rightarrow> token list \<Rightarrow> (ctx \<times> token list) res"

definition enterRule :: "token list \<Rightarrow> pstate" where
  "enterRule ts = \<lparr>children = [], label = None, input = ts\<rparr>"

definition exitRule :: "string \<Rightarrow> pstate res \<Rightarrow> (ctx \<times> token list) res" where
  "exitRule n r = bnd r (\<lambda>st. Inr (Rule n (label st) (children st), input st))"

definition consume :: step where
  "consume st =
     Inr (st\<lparr>children := children st @ [Term (LT (input st))],
             input := (if fst (LT (input st)) = EOF then input st else tl (input st))\<rparr>)"

definition match :: "bool \<Rightarrow> kind \<Rightarrow> step" where
  "match debug k st =
     bnd (LA debug 1 (input st)) (\<lambda>la. if la = k then consume st else recoverInline st)"

definition match_in :: "bool \<Rightarrow> kind list \<Rightarrow> step" where
  "match_in debug ks st =
     bnd (LA debug 1 (input st)) (\<lambda>la.
       if la \<in> set ks then consume (st\<lparr>label := Some (LT (input st))\<rparr>)
       else recoverInline st)"

definition match_label :: "bool \<Rightarrow> kind \<Rightarrow> step" where
  "match_label debug k st = match debug k (st\<lparr>label := Some (LT (input st))\<rparr>)"

definition call :: "parser \<Rightarrow> rule \<Rightarrow> nat \<Rightarrow> step" where
  "call rec r p st =
     bnd (rec r p (input st)) (\<lambda>(c, ts). Inr (st\<lparr>children := children st @ [c], input := ts\<rparr>))"

definition noViableAlt :: "pstate \<Rightarrow> 'a res" where
  "noViableAlt st = Inl (Recognition (NoViableAltException (LT (input st))))"

fun steps :: "step list \<Rightarrow> step" where
  "steps [] st = Inr st"
| "steps (f # fs) st = bnd (f st) (steps fs)"

definition la_in :: "bool \<Rightarrow> kind list \<Rightarrow> pstate \<Rightarrow> bool res" where
  "la_in debug ks st = bnd (LA debug 1 (input st)) (\<lambda>la. Inr (la \<in> set ks))"

definition optional :: "(pstate \<Rightarrow> bool res) \<Rightarrow> step \<Rightarrow> step" where
  "optional c body st = bnd (c st) (\<lambda>b. if b then body st else Inr st)"

text \<open>
  A loop of a rule method. Every pass consumes a token, so one pass more than there are
  tokens is never needed.
\<close>

fun loop :: "nat \<Rightarrow> (pstate \<Rightarrow> bool res) \<Rightarrow> step \<Rightarrow> step" where
  "loop 0 c body st = Inl OutOfFuel"
| "loop (Suc n) c body st = bnd (c st) (\<lambda>b. if b then bnd (body st) (loop n c body) else Inr st)"

definition while_loop :: "(pstate \<Rightarrow> bool res) \<Rightarrow> step \<Rightarrow> step" where
  "while_loop c body st = loop (Suc (Suc (length (input st)))) c body st"

subsection \<open>Token sets of the generated code\<close>

definition FIRST_element :: "kind list" where
  "FIRST_element = [T 2, T 42, T 59, T 60, T 61, T 64, T 65, T 66, T 67, TAG, SYMBOL, FRACTION,
     CONSTANT, FLOAT, MOMENT, DURATION, RESOURCE, VERSION, BINARY, TEXT_BLOCK, TEXT]"

definition FIRST_expression :: "kind list" where
  "FIRST_expression = [T 0, T 2, T 7, T 38, T 42, T 43, T 44, T 47, T 53, T 59, T 60, T 61, T 64,
     T 65, T 66, T 67, TAG, SYMBOL, FRACTION, CONSTANT, FLOAT, MOMENT, DURATION, RESOURCE, VERSION,
     BINARY, TEXT_BLOCK, TEXT, IDENTIFIER]"

definition FIRST_statement :: "kind list" where
  "FIRST_statement = [T 0, T 2, T 7, T 12, T 15, T 17, T 19, T 20, T 21, T 22, T 24, T 26, T 29,
     T 31, T 34, T 35, T 36, T 37, T 38, T 42, T 43, T 44, T 47, T 53, T 59, T 60, T 61, T 64, T 65,
     T 66, T 67, TAG, SYMBOL, FRACTION, CONSTANT, FLOAT, MOMENT, DURATION, RESOURCE, VERSION, BINARY,
     TEXT_BLOCK, TEXT, IDENTIFIER]"

subsection \<open>Prediction\<close>

text \<open>
  Where the generated code asks \<open>adaptivePredict\<close> of the ANTLR runtime for the alternative
  to take, the model decides with the lookahead written out below, one function for each
  decision number. A decision that needs to know what follows a whole element or
  expression runs the rule on the tokens ahead; \<open>ahead\<close> is the token kind found after it.
\<close>

fun la_seq :: "bool \<Rightarrow> kind list list \<Rightarrow> token list \<Rightarrow> bool res" where
  "la_seq debug [] ts = Inr True"
| "la_seq debug (ks # kss) ts =
     bnd (LA debug 1 ts) (\<lambda>la. if la \<in> set ks then la_seq debug kss (tl ts) else Inr False)"

definition ahead :: "parser \<Rightarrow> rule \<Rightarrow> token list \<Rightarrow> kind option" where
  "ahead rec r ts = (case rec r 0 ts of Inl e \<Rightarrow> None | Inr (c, rest) \<Rightarrow> Some (fst (LT rest)))"

definition predict_parameters :: "bool \<Rightarrow> pstate \<Rightarrow> bool res" where
  "predict_parameters debug st = la_in debug [T 2] st"

definition adaptivePredict_4 :: "parser \<Rightarrow> bool \<Rightarrow> pstate \<Rightarrow> nat res" where
  "adaptivePredict_4 rec debug st =
     bnd (LA debug 1 (input st)) (\<lambda>la.
       if la = T 6 then Inr 3
       else if la \<in> set [T 1, T 3] then Inr 2
       else if la = NEWLINE then
         Inr (if ahead rec RULE_element (tl (input st)) = Some (T 6) then 3 else 2)
       else if la \<in> set FIRST_element \<and> ahead rec RULE_element (input st) = Some (T 6) then Inr 3
       else if ahead rec RULE_expression (input st) = Some (T 4) then Inr 1
       else Inr 2)"

definition adaptivePredict_16 :: "bool \<Rightarrow> pstate \<Rightarrow> nat res" where
  "adaptivePredict_16 debug st =
     bnd (LA debug 1 (input st)) (\<lambda>la.
       if la = NEWLINE then Inr 2 else if la \<in> set FIRST_statement then Inr 1 else Inr 3)"

definition adaptivePredict_17 :: "bool \<Rightarrow> pstate \<Rightarrow> nat res" where
  "adaptivePredict_17 debug st =
     bnd (LA debug 1 (input st)) (\<lambda>la.
       if la = T 15 then Inr 2 else if la = T 17 then Inr 3 else if la = T 19 then Inr 4
       else if la = T 20 then Inr 5 else if la = T 21 then Inr 6 else if la = T 22 then Inr 7
       else if la = T 24 then Inr 8 else if la = T 26 then Inr 9 else if la = T 29 then Inr 10
       else if la = T 31 then Inr 11 else if la = T 12 then Inr 12 else if la = T 34 then Inr 13
       else if la = T 35 then Inr 14 else if la = T 36 then Inr 15 else if la = T 37 then Inr 16
       else if la = IDENTIFIER then
         bnd (la_seq debug [[IDENTIFIER], [T 6], [T 31]] (input st)) (\<lambda>w.
           if w then Inr 11
           else bnd (la_seq debug [[IDENTIFIER], [T 6], [T 12]] (input st)) (\<lambda>w.
             Inr (if w then 12 else 1)))
       else Inr 1)"

definition adaptivePredict_21 :: "parser \<Rightarrow> bool \<Rightarrow> pstate \<Rightarrow> nat res" where
  "adaptivePredict_21 rec debug st =
     bnd (LA debug 1 (input st)) (\<lambda>la.
       if la = SYMBOL then
         bnd (la_seq debug [[SYMBOL], [T 14]] (input st)) (\<lambda>w. Inr (if w then 1 else 2))
       else if la = IDENTIFIER then
         Inr (if ahead rec RULE_indices (tl (input st)) = Some (T 14) then 1 else 2)
       else Inr 2)"

definition adaptivePredict_22 :: "bool \<Rightarrow> pstate \<Rightarrow> bool res" where
  "adaptivePredict_22 debug st = la_seq debug [[T 28], [T 26]] (input st)"

definition adaptivePredict_32 :: "bool \<Rightarrow> pstate \<Rightarrow> nat res" where
  "adaptivePredict_32 debug st =
     bnd (LA debug 1 (input st)) (\<lambda>la.
       if la \<in> set [T 0, T 7] then Inr 1
       else if la = T 2 then
         bnd (la_seq debug [[T 2], [FLOAT, CONSTANT], [T 5, T 62]] (input st)) (\<lambda>w.
           if w then Inr 1
           else bnd (la_seq debug [[T 2], [T 42], [CONSTANT], [T 5, T 62]] (input st)) (\<lambda>w.
             Inr (if w then 1 else 4)))
       else if la = T 38 then Inr 5
       else if la = T 42 then
         bnd (la_seq debug [[T 42], [CONSTANT, T 59]] (input st)) (\<lambda>w. Inr (if w then 1 else 6))
       else if la \<in> set [T 43, T 44] then Inr 6
       else if la = T 47 then Inr 7
       else if la = T 53 then Inr 8
       else if la = IDENTIFIER then
         bnd (la_seq debug [[IDENTIFIER], [T 2]] (input st)) (\<lambda>w. Inr (if w then 3 else 2))
       else if la \<in> set FIRST_element then Inr 1
       else noViableAlt st)"

definition precpred :: "nat \<Rightarrow> nat \<Rightarrow> bool" where
  "precpred p precedence = (p \<le> precedence)"

text \<open>
  Decisions 34 and 33 of \<open>expression\<close>: whether another operator is taken, and which. The
  result is the alternative of decision 33, or \<open>0\<close> when the loop is left.
\<close>

definition adaptivePredict_33 :: "bool \<Rightarrow> nat \<Rightarrow> pstate \<Rightarrow> nat res" where
  "adaptivePredict_33 debug p st =
     bnd (LA debug 1 (input st)) (\<lambda>la.
       Inr (if la = T 41 \<and> precpred p 8 then 1
            else if la \<in> set [T 42, T 43, T 44, T 45, T 46] \<and> precpred p 6 then 2
            else if la \<in> set [T 48, T 49, T 50, T 51, T 52] \<and> precpred p 4 then 3
            else if la \<in> set [T 54, T 55, T 56, T 57] \<and> precpred p 2 then 4
            else if la = T 58 \<and> precpred p 1 then 5
            else if la = T 39 \<and> precpred p 11 then 6
            else if la = T 0 \<and> precpred p 10 then 7
            else if la = T 40 \<and> precpred p 9 then 8
            else 0))"

definition adaptivePredict_35 :: "bool \<Rightarrow> pstate \<Rightarrow> nat res" where
  "adaptivePredict_35 debug st =
     bnd (LA debug 1 (input st)) (\<lambda>la.
       if la = BINARY then Inr 1 else if la = DURATION then Inr 2 else if la = MOMENT then Inr 3
       else if la \<in> set [FLOAT, CONSTANT] then
         bnd (la_seq debug [[FLOAT, CONSTANT], [T 63]] (input st)) (\<lambda>w. Inr (if w then 5 else 4))
       else if la = T 42 then
         bnd (la_seq debug [[T 42], [CONSTANT], [T 63]] (input st)) (\<lambda>w. Inr (if w then 5 else 4))
       else if la \<in> set [T 2, T 59, T 60, T 61] then Inr 4
       else if la \<in> set [T 64, T 65, FRACTION] then Inr 6
       else if la = RESOURCE then Inr 7 else if la = SYMBOL then Inr 8 else if la = TAG then Inr 9
       else if la \<in> set [T 66, T 67] then Inr 10
       else if la \<in> set [TEXT, TEXT_BLOCK] then Inr 11
       else if la = VERSION then Inr 12
       else noViableAlt st)"

definition adaptivePredict_37 :: "bool \<Rightarrow> pstate \<Rightarrow> nat res" where
  "adaptivePredict_37 debug st =
     bnd (LA debug 1 (input st)) (\<lambda>la.
       if la \<in> set [FLOAT, CONSTANT] then Inr 1
       else if la = T 42 then
         bnd (la_seq debug [[T 42], [CONSTANT]] (input st)) (\<lambda>w. Inr (if w then 1 else 2))
       else Inr 3)"

definition adaptivePredict_38 :: "bool \<Rightarrow> pstate \<Rightarrow> nat res" where
  "adaptivePredict_38 debug st =
     bnd (LA debug 1 (input st)) (\<lambda>la.
       if la = T 60 then Inr 1 else if la = T 61 then Inr 2 else if la = T 2 then Inr 5
       else if la = T 59 then Inr 4
       else if la \<in> set [FLOAT, CONSTANT] then
         bnd (la_seq debug [[FLOAT, CONSTANT], [T 59]] (input st)) (\<lambda>w. Inr (if w then 4 else 3))
       else if la = T 42 then
         bnd (la_seq debug [[T 42], [T 59]] (input st)) (\<lambda>w.
           if w then Inr 4
           else bnd (la_seq debug [[T 42], [CONSTANT], [T 59]] (input st)) (\<lambda>w.
             Inr (if w then 4 else 3)))
       else noViableAlt st)"

subsection \<open>The rule methods\<close>

definition document :: "parser \<Rightarrow> bool \<Rightarrow> token list \<Rightarrow> (ctx \<times> token list) res" where
  "document rec debug ts = exitRule ''DocumentContext'' (steps
     [while_loop (la_in debug [NEWLINE]) (match debug NEWLINE),
      call rec RULE_component 0,
      while_loop (la_in debug [NEWLINE]) (match debug NEWLINE),
      match debug EOF] (enterRule ts))"

definition component :: "parser \<Rightarrow> bool \<Rightarrow> token list \<Rightarrow> (ctx \<times> token list) res" where
  "component rec debug ts = exitRule ''ComponentContext''
     (bnd (LA debug 1 ts) (\<lambda>la.
        if la \<in> set FIRST_element then call rec RULE_element 0 (enterRule ts)
        else if la = T 0 then call rec RULE_structure 0 (enterRule ts)
        else if la = T 7 then call rec RULE_block 0 (enterRule ts)
        else noViableAlt (enterRule ts)))"

definition structure_rule :: "parser \<Rightarrow> bool \<Rightarrow> token list \<Rightarrow> (ctx \<times> token list) res" where
  "structure_rule rec debug ts = exitRule ''StructureContext'' (steps
     [match debug (T 0), call rec RULE_composite 0, match debug (T 1),
      optional (predict_parameters debug) (call rec RULE_parameters 0)] (enterRule ts))"

definition parameters :: "parser \<Rightarrow> bool \<Rightarrow> token list \<Rightarrow> (ctx \<times> token list) res" where
  "parameters rec debug ts = exitRule ''ParametersContext'' (steps
     [match debug (T 2), call rec RULE_composite 0, match debug (T 3)] (enterRule ts))"

definition composite :: "parser \<Rightarrow> bool \<Rightarrow> token list \<Rightarrow> (ctx \<times> token list) res" where
  "composite rec debug ts = exitRule ''CompositeContext''
     (bnd (adaptivePredict_4 rec debug (enterRule ts)) (\<lambda>alt.
        if alt = 1 then call rec RULE_range 0 (enterRule ts)
        else if alt = 2 then call rec RULE_array 0 (enterRule ts)
        else call rec RULE_table 0 (enterRule ts)))"

definition range_rule :: "parser \<Rightarrow> bool \<Rightarrow> token list \<Rightarrow> (ctx \<times> token list) res" where
  "range_rule rec debug ts = exitRule ''RangeContext'' (steps
     [call rec RULE_expression 0, match debug (T 4), call rec RULE_expression 0] (enterRule ts))"

definition array :: "parser \<Rightarrow> bool \<Rightarrow> token list \<Rightarrow> (ctx \<times> token list) res" where
  "array rec debug ts =
     bnd (LA debug 1 ts) (\<lambda>la.
       if la \<in> set FIRST_expression then
         exitRule ''InlineArrayContext'' (steps
           [call rec RULE_expression 0,
            while_loop (la_in debug [T 5]) (steps [match debug (T 5), call rec RULE_expression 0])]
           (enterRule ts))
       else if la = NEWLINE then
         exitRule ''NewlineArrayContext'' (steps
           [match debug NEWLINE,
            while_loop (la_in debug FIRST_expression)
              (steps [call rec RULE_expression 0, match debug NEWLINE])]
           (enterRule ts))
       else if la \<in> set [T 1, T 3] then exitRule ''EmptyArrayContext'' (Inr (enterRule ts))
       else noViableAlt (enterRule ts))"

definition table :: "parser \<Rightarrow> bool \<Rightarrow> token list \<Rightarrow> (ctx \<times> token list) res" where
  "table rec debug ts =
     bnd (LA debug 1 ts) (\<lambda>la.
       if la \<in> set FIRST_element then
         exitRule ''InlineTableContext'' (steps
           [call rec RULE_association 0,
            while_loop (la_in debug [T 5]) (steps [match debug (T 5), call rec RULE_association 0])]
           (enterRule ts))
       else if la = NEWLINE then
         exitRule ''NewlineTableContext'' (steps
           [match debug NEWLINE,
            while_loop (la_in debug FIRST_element)
              (steps [call rec RULE_association 0, match debug NEWLINE])]
           (enterRule ts))
       else if la = T 6 then exitRule ''EmptyTableContext'' (match debug (T 6) (enterRule ts))
       else noViableAlt (enterRule ts))"

definition association :: "parser \<Rightarrow> bool \<Rightarrow> token list \<Rightarrow> (ctx \<times> token list) res" where
  "association rec debug ts = exitRule ''AssociationContext'' (steps
     [call rec RULE_element 0, match debug (T 6), call rec RULE_expression 0] (enterRule ts))"

definition block :: "parser \<Rightarrow> bool \<Rightarrow> token list \<Rightarrow> (ctx \<times> token list) res" where
  "block rec debug ts = exitRule ''BlockContext'' (steps
     [match debug (T 7), call rec RULE_procedure 0, match debug (T 8),
      optional (predict_parameters debug) (call rec RULE_parameters 0)] (enterRule ts))"

definition procedure :: "parser \<Rightarrow> bool \<Rightarrow> token list \<Rightarrow> (ctx \<times> token list) res" where
  "procedure rec debug ts =
     bnd (adaptivePredict_16 debug (enterRule ts)) (\<lambda>alt.
       if alt = 1 then
         exitRule ''InlineProcedureContext'' (steps
           [call rec RULE_statement 0,
            while_loop (la_in debug [T 9]) (steps [match debug (T 9), call rec RULE_statement 0])]
           (enterRule ts))
       else if alt = 2 then
         exitRule ''NewlineProcedureContext'' (steps
           [match debug NEWLINE,
            while_loop (la_in debug FIRST_statement)
              (steps [call rec RULE_statement 0, match debug NEWLINE])]
           (enterRule ts))
       else exitRule ''EmptyProcedureContext'' (Inr (enterRule ts)))"

definition mainClause :: "nat \<Rightarrow> rule" where
  "mainClause alt =
     [RULE_evaluateClause, RULE_checkoutClause, RULE_saveClause, RULE_discardClause,
      RULE_commitClause, RULE_publishClause, RULE_queueClause, RULE_waitClause, RULE_ifClause,
      RULE_selectClause, RULE_whileClause, RULE_withClause, RULE_continueClause,
      RULE_breakClause, RULE_returnClause, RULE_throwClause] ! (alt - 1)"

definition statement :: "parser \<Rightarrow> bool \<Rightarrow> token list \<Rightarrow> (ctx \<times> token list) res" where
  "statement rec debug ts = exitRule ''StatementContext''
     (bnd (adaptivePredict_17 debug (enterRule ts)) (\<lambda>alt. steps
        [call rec (mainClause alt) 0,
         while_loop (la_in debug [T 10]) (call rec RULE_handleClause 0),
         optional (la_in debug [T 13]) (call rec RULE_finishClause 0)] (enterRule ts)))"

definition handleClause :: "parser \<Rightarrow> bool \<Rightarrow> token list \<Rightarrow> (ctx \<times> token list) res" where
  "handleClause rec debug ts = exitRule ''HandleClauseContext'' (steps
     [match debug (T 10), call rec RULE_symbol 0, match debug (T 11), call rec RULE_expression 0,
      match debug (T 12), call rec RULE_block 0] (enterRule ts))"

definition finishClause :: "parser \<Rightarrow> bool \<Rightarrow> token list \<Rightarrow> (ctx \<times> token list) res" where
  "finishClause rec debug ts = exitRule ''FinishClauseContext'' (steps
     [match debug (T 13), match debug (T 12), call rec RULE_block 0] (enterRule ts))"

definition evaluateClause :: "parser \<Rightarrow> bool \<Rightarrow> token list \<Rightarrow> (ctx \<times> token list) res" where
  "evaluateClause rec debug ts = exitRule ''EvaluateClauseContext'' (steps
     [(\<lambda>st. bnd (adaptivePredict_21 rec debug st) (\<lambda>alt.
         if alt = 1 then
           bnd (LA debug 1 (input st)) (\<lambda>la.
             if la = SYMBOL then steps [call rec RULE_symbol 0, match debug (T 14)] st
             else if la = IDENTIFIER then
               steps [call rec RULE_variable 0, call rec RULE_indices 0, match debug (T 14)] st
             else noViableAlt st)
         else Inr st)),
      call rec RULE_expression 0] (enterRule ts))"

definition checkoutClause :: "parser \<Rightarrow> bool \<Rightarrow> token list \<Rightarrow> (ctx \<times> token list) res" where
  "checkoutClause rec debug ts = exitRule ''CheckoutClauseContext'' (steps
     [match debug (T 15), call rec RULE_symbol 0, match debug (T 16), call rec RULE_expression 0]
     (enterRule ts))"

definition saveClause :: "parser \<Rightarrow> bool \<Rightarrow> token list \<Rightarrow> (ctx \<times> token list) res" where
  "saveClause rec debug ts = exitRule ''SaveClauseContext'' (steps
     [match debug (T 17), call rec RULE_expression 0, match debug (T 18), call rec RULE_expression 0]
     (enterRule ts))"

definition discardClause :: "parser \<Rightarrow> bool \<Rightarrow> token list \<Rightarrow> (ctx \<times> token list) res" where
  "discardClause rec debug ts = exitRule ''DiscardClauseContext'' (steps
     [match debug (T 19), call rec RULE_expression 0] (enterRule ts))"

definition commitClause :: "parser \<Rightarrow> bool \<Rightarrow> token list \<Rightarrow> (ctx \<times> token list) res" where
  "commitClause rec debug ts = exitRule ''CommitClauseContext'' (steps
     [match debug (T 20), call rec RULE_expression 0, match debug (T 18), call rec RULE_expression 0]
     (enterRule ts))"

definition publishClause :: "parser \<Rightarrow> bool \<Rightarrow> token list \<Rightarrow> (ctx \<times> token list) res" where
  "publishClause rec debug ts = exitRule ''PublishClauseContext'' (steps
     [match debug (T 21), call rec RULE_expression 0] (enterRule ts))"

definition queueClause :: "parser \<Rightarrow> bool \<Rightarrow> token list \<Rightarrow> (ctx \<times> token list) res" where
  "queueClause rec debug ts = exitRule ''QueueClauseContext'' (steps
     [match debug (T 22), call rec RULE_expression 0, match debug (T 23), call rec RULE_expression 0]
     (enterRule ts))"

definition waitClause :: "parser \<Rightarrow> bool \<Rightarrow> token list \<Rightarrow> (ctx \<times> token list) res" where
  "waitClause rec debug ts = exitRule ''WaitClauseContext'' (steps
     [match debug (T 24), match debug (T 25), call rec RULE_symbol 0, match debug (T 16),
      call rec RULE_expression 0] (enterRule ts))"

definition ifClause :: "parser \<Rightarrow> bool \<Rightarrow> token list \<Rightarrow> (ctx \<times> token list) res" where
  "ifClause rec debug ts = exitRule ''IfClauseContext'' (steps
     [match debug (T 26), call rec RULE_expression 0, match debug (T 27), call rec RULE_block 0,
      while_loop (adaptivePredict_22 debug)
        (steps [match debug (T 28), match debug (T 26), call rec RULE_expression 0,
                match debug (T 27), call rec RULE_block 0]),
      optional (la_in debug [T 28]) (steps [match debug (T 28), call rec RULE_block 0])]
     (enterRule ts))"

definition selectClause :: "parser \<Rightarrow> bool \<Rightarrow> token list \<Rightarrow> (ctx \<times> token list) res" where
  "selectClause rec debug ts = exitRule ''SelectClauseContext'' (steps
     [match debug (T 29), call rec RULE_expression 0, match debug (T 16),
      call rec RULE_expression 0, match debug (T 30), call rec RULE_block 0,
      while_loop (la_in debug FIRST_expression)
        (steps [call rec RULE_expression 0, match debug (T 30), call rec RULE_block 0]),
      optional (la_in debug [T 28]) (steps [match debug (T 28), call rec RULE_block 0])]
     (enterRule ts))"

definition whileClause :: "parser \<Rightarrow> bool \<Rightarrow> token list \<Rightarrow> (ctx \<times> token list) res" where
  "whileClause rec debug ts = exitRule ''WhileClauseContext'' (steps
     [optional (la_in debug [IDENTIFIER]) (steps [call rec RULE_label 0, match debug (T 6)]),
      match debug (T 31), call rec RULE_expression 0, match debug (T 30), call rec RULE_block 0]
     (enterRule ts))"

definition withClause :: "parser \<Rightarrow> bool \<Rightarrow> token list \<Rightarrow> (ctx \<times> token list) res" where
  "withClause rec debug ts = exitRule ''WithClauseContext'' (steps
     [optional (la_in debug [IDENTIFIER]) (steps [call rec RULE_label 0, match debug (T 6)]),
      match debug (T 12),
      optional (la_in debug [T 32])
        (steps [match debug (T 32), call rec RULE_symbol 0, match debug (T 33)]),
      call rec RULE_expression 0, match debug (T 30), call rec RULE_block 0] (enterRule ts))"

definition continueClause :: "parser \<Rightarrow> bool \<Rightarrow> token list \<Rightarrow> (ctx \<times> token list) res" where
  "continueClause rec debug ts = exitRule ''ContinueClauseContext'' (steps
     [match debug (T 34),
      optional (la_in debug [T 18]) (steps [match debug (T 18), call rec RULE_label 0])]
     (enterRule ts))"

definition breakClause :: "parser \<Rightarrow> bool \<Rightarrow> token list \<Rightarrow> (ctx \<times> token list) res" where
  "breakClause rec debug ts = exitRule ''BreakClauseContext'' (steps
     [match debug (T 35),
      optional (la_in debug [T 16]) (steps [match debug (T 16), call rec RULE_label 0])]
     (enterRule ts))"

definition returnClause :: "parser \<Rightarrow> bool \<Rightarrow> token list \<Rightarrow> (ctx \<times> token list) res" where
  "returnClause rec debug ts = exitRule ''ReturnClauseContext'' (steps
     [match debug (T 36),
      optional (la_in debug FIRST_expression) (call rec RULE_expression 0)] (enterRule ts))"

definition throwClause :: "parser \<Rightarrow> bool \<Rightarrow> token list \<Rightarrow> (ctx \<times> token list) res" where
  "throwClause rec debug ts = exitRule ''ThrowClauseContext'' (steps
     [match debug (T 37), call rec RULE_expression 0] (enterRule ts))"

definition indices :: "parser \<Rightarrow> bool \<Rightarrow> token list \<Rightarrow> (ctx \<times> token list) res" where
  "indices rec debug ts = exitRule ''IndicesContext'' (steps
     [match debug (T 0), call rec RULE_array 0, match debug (T 1)] (enterRule ts))"

text \<open>A rule that is a single token.\<close>

definition token_rule :: "string \<Rightarrow> kind \<Rightarrow> bool \<Rightarrow> token list \<Rightarrow> (ctx \<times> token list) res" where
  "token_rule n k debug ts = exitRule n (match debug k (enterRule ts))"

text \<open>
  \<open>expression\<close>: the alternative that starts the expression, then the loop over the
  operators that may follow, each guarded by \<open>precpred\<close> on the precedence \<open>_p\<close> the rule
  was called with. An operator's context takes the expression parsed so far as its first
  child.
\<close>

definition expression_primary :: "parser \<Rightarrow> bool \<Rightarrow> token list \<Rightarrow> (ctx \<times> token list) res" where
  "expression_primary rec debug ts =
     bnd (adaptivePredict_32 debug (enterRule ts)) (\<lambda>alt.
       if alt = 1 then exitRule ''ComponentExpressionContext'' (call rec RULE_component 0 (enterRule ts))
       else if alt = 2 then
         exitRule ''VariableExpressionContext'' (call rec RULE_variable 0 (enterRule ts))
       else if alt = 3 then
         exitRule ''FunctionExpressionContext'' (call rec RULE_invocation 0 (enterRule ts))
       else if alt = 4 then
         exitRule ''PrecedenceExpressionContext'' (steps
           [match debug (T 2), call rec RULE_expression 0, match debug (T 3)] (enterRule ts))
       else if alt = 5 then
         exitRule ''DereferenceExpressionContext'' (steps
           [match debug (T 38), call rec RULE_expression 12] (enterRule ts))
       else if alt = 6 then
         exitRule ''InversionExpressionContext'' (steps
           [match_in debug [T 42, T 43, T 44], call rec RULE_expression 7] (enterRule ts))
       else if alt = 7 then
         exitRule ''MagnitudeExpressionContext'' (steps
           [match debug (T 47), call rec RULE_expression 0, match debug (T 47)] (enterRule ts))
       else
         exitRule ''ComplementExpressionContext'' (steps
           [match debug (T 53), call rec RULE_expression 3] (enterRule ts)))"

definition failedPredicate :: "nat \<Rightarrow> nat \<Rightarrow> step" where
  "failedPredicate p precedence st =
     (if precpred p precedence then Inr st
      else Inl (Recognition (FailedPredicateException (LT (input st)) ''this.precpred(this._ctx, k)'')))"

definition pushNewRecursionContext :: "string \<Rightarrow> pstate res \<Rightarrow> pstate res" where
  "pushNewRecursionContext n r =
     bnd r (\<lambda>st. Inr \<lparr>children = [Rule n (label st) (children st)], label = None, input = input st\<rparr>)"

definition expression_operator :: "parser \<Rightarrow> bool \<Rightarrow> nat \<Rightarrow> step" where
  "expression_operator rec debug p st =
     bnd (adaptivePredict_33 debug p st) (\<lambda>alt.
       if alt = 1 then pushNewRecursionContext ''ExponentialExpressionContext'' (steps
           [failedPredicate p 8, match debug (T 41), call rec RULE_expression 8] st)
       else if alt = 2 then pushNewRecursionContext ''ArithmeticExpressionContext'' (steps
           [failedPredicate p 6, match_in debug [T 42, T 43, T 44, T 45, T 46],
            call rec RULE_expression 7] st)
       else if alt = 3 then pushNewRecursionContext ''ComparisonExpressionContext'' (steps
           [failedPredicate p 4, match_in debug [T 48, T 49, T 50, T 51, T 52],
            call rec RULE_expression 5] st)
       else if alt = 4 then pushNewRecursionContext ''LogicalExpressionContext'' (steps
           [failedPredicate p 2, match_in debug [T 54, T 55, T 56, T 57],
            call rec RULE_expression 3] st)
       else if alt = 5 then pushNewRecursionContext ''DefaultExpressionContext'' (steps
           [failedPredicate p 1, match debug (T 58), call rec RULE_expression 2] st)
       else if alt = 6 then pushNewRecursionContext ''MessageExpressionContext'' (steps
           [failedPredicate p 11, match debug (T 39), call rec RULE_invocation 0] st)
       else if alt = 7 then pushNewRecursionContext ''SubcomponentExpressionContext'' (steps
           [failedPredicate p 10, call rec RULE_indices 0] st)
       else pushNewRecursionContext ''FactorialExpressionContext'' (steps
           [failedPredicate p 9, match debug (T 40)] st))"

definition expression :: "parser \<Rightarrow> bool \<Rightarrow> nat \<Rightarrow> token list \<Rightarrow> (ctx \<times> token list) res" where
  "expression rec debug p ts =
     bnd (expression_primary rec debug ts) (\<lambda>(c, ts1).
       bnd (while_loop (\<lambda>st. bnd (adaptivePredict_33 debug p st) (\<lambda>alt. Inr (alt \<noteq> 0)))
              (expression_operator rec debug p)
              \<lparr>children = [c], label = None, input = ts1\<rparr>)
           (\<lambda>st. Inr (hd (children st), input st)))"

definition invocation :: "parser \<Rightarrow> bool \<Rightarrow> token list \<Rightarrow> (ctx \<times> token list) res" where
  "invocation rec debug ts = exitRule ''InvocationContext'' (steps
     [call rec RULE_name 0, call rec RULE_parameters 0] (enterRule ts))"

definition elementAlt :: "nat \<Rightarrow> rule" where
  "elementAlt alt =
     [RULE_binary, RULE_duration, RULE_moment, RULE_number, RULE_percent, RULE_probability,
      RULE_reference, RULE_symbol, RULE_tag, RULE_template, RULE_text, RULE_version] ! (alt - 1)"

definition element :: "parser \<Rightarrow> bool \<Rightarrow> token list \<Rightarrow> (ctx \<times> token list) res" where
  "element rec debug ts = exitRule ''ElementContext''
     (bnd (adaptivePredict_35 debug (enterRule ts)) (\<lambda>alt. steps
        [call rec (elementAlt alt) 0,
         optional (predict_parameters debug) (call rec RULE_parameters 0)] (enterRule ts)))"

definition imaginary :: "parser \<Rightarrow> bool \<Rightarrow> token list \<Rightarrow> (ctx \<times> token list) res" where
  "imaginary rec debug ts = exitRule ''ImaginaryContext''
     (bnd (adaptivePredict_37 debug (enterRule ts)) (\<lambda>alt. steps
        [(\<lambda>st. if alt = 1 then call rec RULE_real 0 st
               else if alt = 2 then match_label debug (T 42) st
               else Inr st),
         match debug (T 59)] (enterRule ts)))"

definition number :: "parser \<Rightarrow> bool \<Rightarrow> token list \<Rightarrow> (ctx \<times> token list) res" where
  "number rec debug ts =
     bnd (adaptivePredict_38 debug (enterRule ts)) (\<lambda>alt.
       if alt = 1 then exitRule ''UndefinedNumberContext'' (match debug (T 60) (enterRule ts))
       else if alt = 2 then exitRule ''InfiniteNumberContext'' (match debug (T 61) (enterRule ts))
       else if alt = 3 then exitRule ''RealNumberContext'' (call rec RULE_real 0 (enterRule ts))
       else if alt = 4 then exitRule ''ImaginaryNumberContext'' (call rec RULE_imaginary 0 (enterRule ts))
       else exitRule ''ComplexNumberContext'' (steps
           [match debug (T 2), call rec RULE_real 0, match_in debug [T 5, T 62],
            call rec RULE_imaginary 0, match debug (T 3)] (enterRule ts)))"

definition percent :: "parser \<Rightarrow> bool \<Rightarrow> token list \<Rightarrow> (ctx \<times> token list) res" where
  "percent rec debug ts = exitRule ''PercentContext'' (steps
     [call rec RULE_real 0, match debug (T 63)] (enterRule ts))"

definition probability :: "bool \<Rightarrow> token list \<Rightarrow> (ctx \<times> token list) res" where
  "probability debug ts =
     bnd (LA debug 1 ts) (\<lambda>la.
       if la = T 64 then token_rule ''TrueProbabilityContext'' (T 64) debug ts
       else if la = T 65 then token_rule ''FalseProbabilityContext'' (T 65) debug ts
       else if la = FRACTION then token_rule ''FractionalProbabilityContext'' FRACTION debug ts
       else noViableAlt (enterRule ts))"

definition real_rule :: "bool \<Rightarrow> token list \<Rightarrow> (ctx \<times> token list) res" where
  "real_rule debug ts =
     bnd (LA debug 1 ts) (\<lambda>la.
       if la \<in> set [T 42, CONSTANT] then
         exitRule ''ConstantRealContext'' (steps
           [optional (la_in debug [T 42]) (match_label debug (T 42)), match debug CONSTANT]
           (enterRule ts))
       else if la = FLOAT then token_rule ''VariableRealContext'' FLOAT debug ts
       else noViableAlt (enterRule ts))"

definition template :: "bool \<Rightarrow> token list \<Rightarrow> (ctx \<times> token list) res" where
  "template debug ts =
     bnd (LA debug 1 ts) (\<lambda>la.
       if la = T 66 then token_rule ''NoneTemplateContext'' (T 66) debug ts
       else if la = T 67 then token_rule ''AnyTemplateContext'' (T 67) debug ts
       else noViableAlt (enterRule ts))"

definition text_rule :: "bool \<Rightarrow> token list \<Rightarrow> (ctx \<times> token list) res" where
  "text_rule debug ts =
     bnd (LA debug 1 ts) (\<lambda>la.
       if la = TEXT then token_rule ''InlineTextContext'' TEXT debug ts
       else if la = TEXT_BLOCK then token_rule ''NewlineTextContext'' TEXT_BLOCK debug ts
       else noViableAlt (enterRule ts))"

text \<open>
  The parser. Each rule method runs inside its \<open>try\<close> and \<open>catch\<close>; the fuel bounds the
  depth of the calls.
\<close>

definition rule_method ::
  "parser \<Rightarrow> bool \<Rightarrow> rule \<Rightarrow> nat \<Rightarrow> token list \<Rightarrow> (ctx \<times> token list) res" where
  "rule_method rec debug r p ts =
     (if r = RULE_document then document rec debug ts
      else if r = RULE_component then component rec debug ts
      else if r = RULE_structure then structure_rule rec debug ts
      else if r = RULE_parameters then parameters rec debug ts
      else if r = RULE_composite then composite rec debug ts
      else if r = RULE_range then range_rule rec debug ts
      else if r = RULE_array then array rec debug ts
      else if r = RULE_table then table rec debug ts
      else if r = RULE_association then association rec debug ts
      else if r = RULE_block then block rec debug ts
      else if r = RULE_procedure then procedure rec debug ts
      else if r = RULE_statement then statement rec debug ts
      else if r = RULE_handleClause then handleClause rec debug ts
      else if r = RULE_finishClause then finishClause rec debug ts
      else if r = RULE_evaluateClause then evaluateClause rec debug ts
      else if r = RULE_checkoutClause then checkoutClause rec debug ts
      else if r = RULE_saveClause then saveClause rec debug ts
      else if r = RULE_discardClause then discardClause rec debug ts
      else if r = RULE_commitClause then commitClause rec debug ts
      else if r = RULE_publishClause then publishClause rec debug ts
      else if r = RULE_queueClause then queueClause rec debug ts
      else if r = RULE_waitClause then waitClause rec debug ts
      else if r = RULE_ifClause then ifClause rec debug ts
      else if r = RULE_selectClause then selectClause rec debug ts
      else if r = RULE_whileClause then whileClause rec debug ts
      else if r = RULE_withClause then withClause rec debug ts
      else if r = RULE_continueClause then continueClause rec debug ts
      else if r = RULE_breakClause then breakClause rec debug ts
      else if r = RULE_returnClause then returnClause rec debug ts
      else if r = RULE_throwClause then throwClause rec debug ts
      else if r = RULE_label then token_rule ''LabelContext'' IDENTIFIER debug ts
      else if r = RULE_variable then token_rule ''VariableContext'' IDENTIFIER debug ts
      else if r = RULE_indices then indices rec debug ts
      else if r = RULE_expression then expression rec debug p ts
      else if r = RULE_invocation then invocation rec debug ts
      else if r = RULE_name then token_rule ''NameContext'' IDENTIFIER debug ts
      else if r = RULE_element then element rec debug ts
      else if r = RULE_binary then token_rule ''BinaryContext'' BINARY debug ts
      else if r = RULE_duration then token_rule ''DurationContext'' DURATION debug ts
      else if r = RULE_imaginary then imaginary rec debug ts
      else if r = RULE_moment then token_rule ''MomentContext'' MOMENT debug ts
      else if r = RULE_number then number rec debug ts
      else if r = RULE_percent then percent rec debug ts
      else if r = RULE_probability then probability debug ts
      else if r = RULE_real then real_rule debug ts
      else if r = RULE_reference then token_rule ''ReferenceContext'' RESOURCE debug ts
      else if r = RULE_symbol then token_rule ''SymbolContext'' SYMBOL debug ts
      else if r = RULE_tag then token_rule ''TagContext'' TAG debug ts
      else if r = RULE_template then template debug ts
      else if r = RULE_text then text_rule debug ts
      else if r = RULE_version then token_rule ''VersionContext'' VERSION debug ts
      else noViableAlt (enterRule ts))"

primrec BaliLanguageParser :: "nat \<Rightarrow> bool \<Rightarrow> parser" where
  "BaliLanguageParser 0 debug r p ts = Inl OutOfFuel"
| "BaliLanguageParser (Suc n) debug r p ts =
     rule_catch debug (rule_method (BaliLanguageParser n debug) debug r p ts)"

section \<open>The parsing visitor: from the parse tree to the tree of nodes\<close>

subsection \<open>Nodes\<close>

text \<open>
  The visitor builds \<open>Tree\<close> and \<open>Terminal\<close> nodes. A node type is the name of its constant
  in \<open>types\<close>. A terminal has a type, a value and, when the visitor sets it, a size; a tree
  has a type, an operator when the visitor sets one, a size and its children in order.
  The visitor's \<open>result\<close> field also holds plain strings (the text of a real or imaginary
  part), the document object, or nothing yet.

  \<open>Tree.addChild\<close> appends the child. What it does to the size of the tree is the
  parameter \<open>g\<close> of the visitor (the size after adding a child, from the size before and
  the child): the properties below hold whatever it is.
\<close>

datatype node =
    Terminal string string "int option"
  | Tree string "string option" int "node list"
  | JString string
  | BaliDocument "node option" node "(node \<times> node) list"
  | JUndefined

type_synonym grow = "int \<Rightarrow> node \<Rightarrow> int"

fun addChild :: "grow \<Rightarrow> node \<Rightarrow> node \<Rightarrow> node" where
  "addChild g (Tree t opr sz cs) c = Tree t opr (g sz c) (cs @ [c])"
| "addChild g n c = n"

fun set_operator :: "string \<Rightarrow> node \<Rightarrow> node" where
  "set_operator s (Tree t opr sz cs) = Tree t (Some s) sz cs"
| "set_operator s n = n"

fun add_size :: "int \<Rightarrow> node \<Rightarrow> node" where
  "add_size k (Tree t opr sz cs) = Tree t opr (sz + k) cs"
| "add_size k n = n"

fun set_size :: "int \<Rightarrow> node \<Rightarrow> node" where
  "set_size k (Tree t opr sz cs) = Tree t opr k cs"
| "set_size k (Terminal t v sz) = Terminal t v (Some k)"
| "set_size k n = n"

fun set_last_size :: "int \<Rightarrow> node \<Rightarrow> node" where
  "set_last_size k (Tree t opr sz cs) =
     Tree t opr sz (if cs = [] then [] else butlast cs @ [set_size k (last cs)])"
| "set_last_size k n = n"

fun node_children :: "node \<Rightarrow> node list" where
  "node_children (Tree t opr sz cs) = cs"
| "node_children n = []"

fun node_type :: "node \<Rightarrow> string" where
  "node_type (Tree t opr sz cs) = t"
| "node_type (Terminal t v sz) = t"
| "node_type n = []"

fun node_operator :: "node \<Rightarrow> string option" where
  "node_operator (Tree t opr sz cs) = opr"
| "node_operator n = None"

text \<open>String concatenation with the visitor's \<open>result\<close>.\<close>

fun str :: "node \<Rightarrow> string" where
  "str (JString s) = s"
| "str JUndefined = ''undefined''"
| "str n = ''[object Object]''"

subsection \<open>Reading a rule context\<close>

fun ctx_name :: "ctx \<Rightarrow> string" where
  "ctx_name (Rule n l cs) = n"
| "ctx_name (Term t) = []"

fun ctx_children :: "ctx \<Rightarrow> ctx list" where
  "ctx_children (Rule n l cs) = cs"
| "ctx_children (Term t) = []"

fun ctx_label :: "ctx \<Rightarrow> token option" where
  "ctx_label (Rule n l cs) = l"
| "ctx_label (Term t) = None"

fun nodes :: "ctx \<Rightarrow> nat" where
  "nodes (Rule n l cs) = Suc (sum_list (map nodes cs))"
| "nodes (Term t) = 0"

text \<open>\<open>getTypedRuleContexts\<close>: the children whose class is one of the given classes.\<close>

definition typed :: "string list \<Rightarrow> ctx \<Rightarrow> ctx list" where
  "typed classes c = filter (\<lambda>k. ctx_name k \<in> set classes) (ctx_children c)"

text \<open>\<open>getToken(k, 0).getText()\<close>, and the text of the labelled token.\<close>

fun token_text :: "kind \<Rightarrow> ctx list \<Rightarrow> string" where
  "token_text k [] = []"
| "token_text k (Term t # cs) = (if fst t = k then snd t else token_text k cs)"
| "token_text k (Rule n l ks # cs) = token_text k cs"

definition getText :: "kind \<Rightarrow> ctx \<Rightarrow> string" where
  "getText k c = token_text k (ctx_children c)"

definition label_text :: "ctx \<Rightarrow> string" where
  "label_text c = (case ctx_label c of None \<Rightarrow> [] | Some t \<Rightarrow> snd t)"

text \<open>The classes of the rules with several alternatives.\<close>

definition ExpressionContext :: "string list" where
  "ExpressionContext =
     [''DefaultExpressionContext'', ''MessageExpressionContext'',
      ''SubcomponentExpressionContext'', ''ComparisonExpressionContext'',
      ''ArithmeticExpressionContext'', ''MagnitudeExpressionContext'',
      ''LogicalExpressionContext'', ''FactorialExpressionContext'',
      ''VariableExpressionContext'', ''FunctionExpressionContext'',
      ''PrecedenceExpressionContext'', ''ExponentialExpressionContext'',
      ''ComponentExpressionContext'', ''InversionExpressionContext'',
      ''DereferenceExpressionContext'', ''ComplementExpressionContext'']"

definition ArrayContext :: "string list" where
  "ArrayContext = [''InlineArrayContext'', ''NewlineArrayContext'', ''EmptyArrayContext'']"

definition ProcedureContext :: "string list" where
  "ProcedureContext =
     [''InlineProcedureContext'', ''NewlineProcedureContext'', ''EmptyProcedureContext'']"

definition RealContext :: "string list" where
  "RealContext = [''VariableRealContext'', ''ConstantRealContext'']"

text \<open>
  The visitor was written for a later grammar than the generated parser above, and the
  two name some rules differently. Where the visitor calls an accessor that the contexts
  of the generated parser name otherwise, the model reads the child that stands for the
  same construct:
  \<^item> \<open>list\<close> is \<open>array\<close>, \<open>catalog\<close> is \<open>table\<close>, \<open>collection\<close> is \<open>composite\<close>;
  \<^item> the key of an association (\<open>component\<close>) is its \<open>element\<close>;
  \<^item> \<open>mainClause\<close> is the clause that starts the statement;
  \<^item> \<open>recipient\<close> is the \<open>symbol\<close>, or the \<open>variable\<close> with its \<open>indices\<close> (a
    \<open>subcomponent\<close>);
  \<^item> \<open>funxtion\<close> and \<open>message\<close> are the \<open>name\<close> of the \<open>invocation\<close>, and their
    \<open>parameters\<close> are the parameters of the \<open>invocation\<close>;
  \<^item> the content of the document is its \<open>component\<close>; the document of the generated
    parser has no previous reference and no seals.
  The labels of loops and the parameters that the generated parser attaches to an
  element, a structure or a block are not read by any visit method.
\<close>

text \<open>
  The first context of a list. The accessor of a child that a context does not have
  returns \<open>null\<close>; no rule method builds such a context, and here the missing child is a
  token, which a visit leaves alone.
\<close>

definition first :: "ctx list \<Rightarrow> ctx" where
  "first cs = (case cs of [] \<Rightarrow> Term (EOF, []) | c # _ \<Rightarrow> c)"

definition item :: "ctx list \<Rightarrow> nat \<Rightarrow> ctx" where
  "item cs i = first (drop i cs)"

definition expressions :: "ctx \<Rightarrow> ctx list" where
  "expressions c = typed ExpressionContext c"

definition blocks :: "ctx \<Rightarrow> ctx list" where
  "blocks c = typed [''BlockContext''] c"

definition mainClauseOf :: "ctx \<Rightarrow> ctx" where
  "mainClauseOf c = first (ctx_children c)"

definition invocationOf :: "ctx \<Rightarrow> ctx" where
  "invocationOf c = first (typed [''InvocationContext''] c)"

subsection \<open>Indentation of multi-line literals\<close>

definition indentation :: string where
  "indentation = ''    ''"

definition getPadding :: "nat \<Rightarrow> string" where
  "getPadding depth = concat (replicate depth indentation)"

text \<open>\<open>value.replace(new RegExp('\\n' + padding, 'g'), '\n')\<close>\<close>

fun unindent :: "string \<Rightarrow> string \<Rightarrow> string" where
  "unindent padding [] = []"
| "unindent padding (c # cs) =
     (if c = char_of (10::nat) \<and> take (length padding) cs = padding
      then c # unindent padding (drop (length padding) cs)
      else c # unindent padding cs)"

subsection \<open>The visit methods\<close>

text \<open>
  \<open>v depth result c\<close> is \<open>c.accept(this)\<close> with the visitor's \<open>depth\<close> and \<open>result\<close> fields as
  they are at the call; every visit method returns the \<open>result\<close> field it leaves.
\<close>

type_synonym acceptor = "nat \<Rightarrow> node \<Rightarrow> ctx \<Rightarrow> node"

text \<open>Visit the contexts in order and add each result to the tree.\<close>

fun addAll :: "acceptor \<Rightarrow> grow \<Rightarrow> nat \<Rightarrow> int \<Rightarrow> ctx list \<Rightarrow> node \<times> node \<Rightarrow> node \<times> node" where
  "addAll v g d k [] (tree, r) = (tree, r)"
| "addAll v g d k (c # cs) (tree, r) =
     (let r1 = v d r c in addAll v g d k cs (add_size k (addChild g tree r1), r1))"

definition visitChildren :: "acceptor \<Rightarrow> nat \<Rightarrow> node \<Rightarrow> ctx \<Rightarrow> node" where
  "visitChildren v d r c = fold (\<lambda>k r'. v d r' k) (ctx_children c) r"

text \<open>A tree of the given type and size whose children are the results of the contexts.\<close>

definition treeOf :: "acceptor \<Rightarrow> grow \<Rightarrow> nat \<Rightarrow> node \<Rightarrow> string \<Rightarrow> int \<Rightarrow> ctx list \<Rightarrow> node" where
  "treeOf v g d r t sz cs = fst (addAll v g d 0 cs (Tree t None sz [], r))"

definition visitArithmeticExpression :: "acceptor \<Rightarrow> grow \<Rightarrow> nat \<Rightarrow> node \<Rightarrow> ctx \<Rightarrow> node" where
  "visitArithmeticExpression v g d r c =
     (let tree = Tree ''ARITHMETIC_EXPRESSION'' None 3 [];
          r1 = v d r (item (expressions c) 0);
          tree = addChild g tree r1;
          tree = set_operator (label_text c) tree;
          r2 = v d r1 (item (expressions c) 1);
          tree = addChild g tree r2
      in tree)"

definition visitComparisonExpression :: "acceptor \<Rightarrow> grow \<Rightarrow> nat \<Rightarrow> node \<Rightarrow> ctx \<Rightarrow> node" where
  "visitComparisonExpression v g d r c =
     (let tree = Tree ''COMPARISON_EXPRESSION'' None 9 [];
          r1 = v d r (item (expressions c) 0);
          tree = addChild g tree r1;
          tree = set_operator (label_text c) tree;
          r2 = v d r1 (item (expressions c) 1);
          tree = addChild g tree r2
      in tree)"

definition visitLogicalExpression :: "acceptor \<Rightarrow> grow \<Rightarrow> nat \<Rightarrow> node \<Rightarrow> ctx \<Rightarrow> node" where
  "visitLogicalExpression v g d r c =
     (let tree = Tree ''LOGICAL_EXPRESSION'' None 6 [];
          r1 = v d r (item (expressions c) 0);
          tree = addChild g tree r1;
          tree = set_operator (label_text c) tree;
          r2 = v d r1 (item (expressions c) 1);
          tree = addChild g tree r2
      in tree)"

definition visitInversionExpression :: "acceptor \<Rightarrow> grow \<Rightarrow> nat \<Rightarrow> node \<Rightarrow> ctx \<Rightarrow> node" where
  "visitInversionExpression v g d r c =
     (let tree = Tree ''INVERSION_EXPRESSION'' None 1 [];
          tree = set_operator (label_text c) tree;
          r1 = v d r (item (expressions c) 0)
      in addChild g tree r1)"

definition visitBinary :: "nat \<Rightarrow> ctx \<Rightarrow> node" where
  "visitBinary d c = Terminal ''BINARY'' (unindent (getPadding d) (getText BINARY c)) None"

definition visitNewlineText :: "nat \<Rightarrow> ctx \<Rightarrow> node" where
  "visitNewlineText d c =
     set_size 100 (Terminal ''TEXT'' (unindent (getPadding d) (getText TEXT_BLOCK c)) None)"

definition visitBlock :: "acceptor \<Rightarrow> grow \<Rightarrow> nat \<Rightarrow> node \<Rightarrow> ctx \<Rightarrow> node" where
  "visitBlock v g d r c =
     (let tree = Tree ''BLOCK'' None 2 [];
          r1 = v d r (first (typed ProcedureContext c));
          tree = addChild g tree r1
      in set_last_size 100 tree)"

text \<open>\<open>visitList\<close>, \<open>visitCatalog\<close> and \<open>visitProcedure\<close>, to which the inline, newline and
  empty alternatives all delegate.\<close>

definition visitList :: "acceptor \<Rightarrow> grow \<Rightarrow> nat \<Rightarrow> node \<Rightarrow> ctx \<Rightarrow> node" where
  "visitList v g d r c =
     (let tree = Tree ''LIST'' None 0 [] in
      if ctx_name c \<noteq> ''EmptyArrayContext''
      then fst (addAll v g (d + 1) 2 (expressions c) (tree, r))
      else tree)"

definition visitCatalog :: "acceptor \<Rightarrow> grow \<Rightarrow> nat \<Rightarrow> node \<Rightarrow> ctx \<Rightarrow> node" where
  "visitCatalog v g d r c =
     (let tree = Tree ''CATALOG'' None 0 [] in
      if ctx_name c \<noteq> ''EmptyTableContext''
      then fst (addAll v g (d + 1) 2 (typed [''AssociationContext''] c) (tree, r))
      else tree)"

definition visitProcedure :: "acceptor \<Rightarrow> grow \<Rightarrow> nat \<Rightarrow> node \<Rightarrow> ctx \<Rightarrow> node" where
  "visitProcedure v g d r c =
     (let tree = Tree ''PROCEDURE'' None 0 [] in
      if ctx_name c \<noteq> ''EmptyProcedureContext''
      then fst (addAll v g (d + 1) 2 (typed [''StatementContext''] c) (tree, r))
      else tree)"

definition visitComplexNumber :: "acceptor \<Rightarrow> nat \<Rightarrow> node \<Rightarrow> ctx \<Rightarrow> node" where
  "visitComplexNumber v d r c =
     (let delimiter = label_text c;
          r1 = v d r (first (typed RealContext c));
          val = ''('' @ str r1 @ (if delimiter = '','' then '', '' else '' e^'');
          r2 = v d r1 (first (typed [''ImaginaryContext''] c));
          val = val @ str r2 @ '')''
      in Terminal ''NUMBER'' val None)"

definition visitConstantReal :: "ctx \<Rightarrow> node" where
  "visitConstantReal c =
     JString ((if ctx_label c \<noteq> None then ''-'' else '''') @ getText CONSTANT c)"

definition visitImaginary :: "acceptor \<Rightarrow> nat \<Rightarrow> node \<Rightarrow> ctx \<Rightarrow> node" where
  "visitImaginary v d r c =
     (case typed RealContext c of
        real # _ \<Rightarrow>
          JString (str (v d r real)
            @ (if ctx_name real = ''ConstantRealContext'' then '' '' else '''') @ ''i'')
      | [] \<Rightarrow> JString ((if ctx_label c \<noteq> None then ''-'' else '''') @ ''i''))"

definition visitDocument :: "acceptor \<Rightarrow> nat \<Rightarrow> node \<Rightarrow> ctx \<Rightarrow> node" where
  "visitDocument v d r c =
     BaliDocument None (v d r (first (typed [''ComponentContext''] c))) []"

definition visitEvaluateClause :: "acceptor \<Rightarrow> grow \<Rightarrow> nat \<Rightarrow> node \<Rightarrow> ctx \<Rightarrow> node" where
  "visitEvaluateClause v g d r c =
     (let tree = Tree ''EVALUATE_CLAUSE'' None 0 [];
          recipient =
            (if typed [''SymbolContext''] c \<noteq> [] then Some (v d r (first (typed [''SymbolContext''] c)))
             else if typed [''VariableContext''] c \<noteq> [] then
               Some (treeOf v g d r ''SUBCOMPONENT'' 0
                 [first (typed [''VariableContext''] c), first (typed [''IndicesContext''] c)])
             else None);
          tree = (case recipient of None \<Rightarrow> tree | Some r1 \<Rightarrow> add_size 4 (addChild g tree r1));
          r2 = v d (case recipient of None \<Rightarrow> r | Some r1 \<Rightarrow> r1) (first (expressions c))
      in addChild g tree r2)"

definition visitFunctionExpression :: "acceptor \<Rightarrow> grow \<Rightarrow> nat \<Rightarrow> node \<Rightarrow> ctx \<Rightarrow> node" where
  "visitFunctionExpression v g d r c =
     (let tree = Tree ''FUNCTION_EXPRESSION'' None 0 [];
          tree = addChild g tree (Terminal ''FUNCTION'' (getText IDENTIFIER
                   (first (typed [''NameContext''] (invocationOf c)))) None);
          r2 = v d r (first (typed [''ParametersContext''] (invocationOf c)))
      in addChild g tree r2)"

definition visitMessageExpression :: "acceptor \<Rightarrow> grow \<Rightarrow> nat \<Rightarrow> node \<Rightarrow> ctx \<Rightarrow> node" where
  "visitMessageExpression v g d r c =
     (let tree = Tree ''MESSAGE_EXPRESSION'' None 1 [];
          r1 = v d r (first (expressions c));
          tree = addChild g tree r1;
          tree = addChild g tree (Terminal ''MESSAGE'' (getText IDENTIFIER
                   (first (typed [''NameContext''] (invocationOf c)))) None);
          r3 = v d r1 (first (typed [''ParametersContext''] (invocationOf c)))
      in addChild g tree r3)"

definition visitIfClause :: "acceptor \<Rightarrow> grow \<Rightarrow> nat \<Rightarrow> node \<Rightarrow> ctx \<Rightarrow> node" where
  "visitIfClause v g d r c =
     (let es = expressions c; bs = blocks c;
          hasElseBlock = (length es < length bs);
          pairs = concat (map (\<lambda>i. [item es i, item bs i]) [0 ..< length es])
      in treeOf v g d r ''IF_CLAUSE'' 100 (pairs @ (if hasElseBlock then [last bs] else [])))"

definition visitSelectClause :: "acceptor \<Rightarrow> grow \<Rightarrow> nat \<Rightarrow> node \<Rightarrow> ctx \<Rightarrow> node" where
  "visitSelectClause v g d r c =
     (let selector = item (expressions c) 0; es = drop 1 (expressions c); bs = blocks c;
          hasElseBlock = (length es < length bs);
          pairs = concat (map (\<lambda>i. [item es i, item bs i]) [0 ..< length es])
      in treeOf v g d r ''SELECT_CLAUSE'' 100
           ([selector] @ pairs @ (if hasElseBlock then [last bs] else [])))"

definition visitReturnClause :: "acceptor \<Rightarrow> grow \<Rightarrow> nat \<Rightarrow> node \<Rightarrow> ctx \<Rightarrow> node" where
  "visitReturnClause v g d r c =
     (let tree = Tree ''RETURN_CLAUSE'' None 6 [] in
      case expressions c of
        [] \<Rightarrow> tree
      | e # _ \<Rightarrow> add_size 1 (addChild g tree (v d r e)))"

text \<open>
  \<open>visitStatement\<close> adds the main clause and then each handle clause; it reads nothing
  else of the statement.
\<close>

definition visitStatement :: "acceptor \<Rightarrow> grow \<Rightarrow> nat \<Rightarrow> node \<Rightarrow> ctx \<Rightarrow> node" where
  "visitStatement v g d r c =
     (let tree = Tree ''STATEMENT'' None 0 [];
          r1 = v d r (mainClauseOf c);
          tree = addChild g tree r1
      in fst (addAll v g d 1 (typed [''HandleClauseContext''] c) (tree, r1)))"

definition visitWithClause :: "acceptor \<Rightarrow> grow \<Rightarrow> nat \<Rightarrow> node \<Rightarrow> ctx \<Rightarrow> node" where
  "visitWithClause v g d r c =
     treeOf v g d r ''WITH_CLAUSE'' 100
       (take 1 (typed [''SymbolContext''] c) @ [first (expressions c), first (blocks c)])"

text \<open>The visit method of each class of context; a class with none gets \<open>visitChildren\<close>.\<close>

definition visit :: "acceptor \<Rightarrow> grow \<Rightarrow> nat \<Rightarrow> node \<Rightarrow> ctx \<Rightarrow> node" where
  "visit v g d r c = (let n = ctx_name c in
     if n = ''AnyTemplateContext'' then Terminal ''TEMPLATE'' ''any'' None
     else if n = ''ArithmeticExpressionContext'' then visitArithmeticExpression v g d r c
     else if n = ''AssociationContext'' then
       treeOf v g d r ''ASSOCIATION'' 2 [first (typed [''ElementContext''] c), first (expressions c)]
     else if n = ''BinaryContext'' then visitBinary d c
     else if n = ''BlockContext'' then visitBlock v g d r c
     else if n = ''BreakClauseContext'' then Tree ''BREAK_CLAUSE'' None 10 []
     else if n \<in> set [''InlineTableContext'', ''NewlineTableContext'', ''EmptyTableContext'']
       then visitCatalog v g d r c
     else if n = ''CheckoutClauseContext'' then
       treeOf v g d r ''CHECKOUT_CLAUSE'' 15 [first (typed [''SymbolContext''] c), first (expressions c)]
     else if n = ''CommitClauseContext'' then
       treeOf v g d r ''COMMIT_CLAUSE'' 11 [item (expressions c) 0, item (expressions c) 1]
     else if n = ''ComparisonExpressionContext'' then visitComparisonExpression v g d r c
     else if n = ''ComplementExpressionContext'' then
       treeOf v g d r ''COMPLEMENT_EXPRESSION'' 4 [first (expressions c)]
     else if n = ''ComplexNumberContext'' then visitComplexNumber v d r c
     else if n = ''ComponentContext'' then treeOf v g d r ''COMPONENT'' 0 (ctx_children c)
     else if n = ''ConstantRealContext'' then visitConstantReal c
     else if n = ''ContinueClauseContext'' then Tree ''CONTINUE_CLAUSE'' None 13 []
     else if n = ''DefaultExpressionContext'' then
       treeOf v g d r ''DEFAULT_EXPRESSION'' 3 [item (expressions c) 0, item (expressions c) 1]
     else if n = ''DereferenceExpressionContext'' then
       treeOf v g d r ''DEREFERENCE_EXPRESSION'' 1 [first (expressions c)]
     else if n = ''DiscardClauseContext'' then
       treeOf v g d r ''DISCARD_CLAUSE'' 8 [first (expressions c)]
     else if n = ''DocumentContext'' then visitDocument v d r c
     else if n = ''DurationContext'' then Terminal ''DURATION'' (getText DURATION c) None
     else if n = ''EvaluateClauseContext'' then visitEvaluateClause v g d r c
     else if n = ''ExponentialExpressionContext'' then
       treeOf v g d r ''EXPONENTIAL_EXPRESSION'' 3 [item (expressions c) 0, item (expressions c) 1]
     else if n = ''FactorialExpressionContext'' then
       treeOf v g d r ''FACTORIAL_EXPRESSION'' 1 [first (expressions c)]
     else if n = ''FalseProbabilityContext'' then Terminal ''PROBABILITY'' ''false'' None
     else if n = ''FractionalProbabilityContext'' then
       Terminal ''PROBABILITY'' (getText FRACTION c) None
     else if n = ''FunctionExpressionContext'' then visitFunctionExpression v g d r c
     else if n = ''HandleClauseContext'' then
       treeOf v g d r ''HANDLE_CLAUSE'' 100
         [first (typed [''SymbolContext''] c), first (expressions c), first (blocks c)]
     else if n = ''IfClauseContext'' then visitIfClause v g d r c
     else if n = ''ImaginaryContext'' then visitImaginary v d r c
     else if n = ''ImaginaryNumberContext'' then
       Terminal ''NUMBER'' (str (v d r (first (typed [''ImaginaryContext''] c)))) None
     else if n = ''IndicesContext'' then
       treeOf v g d r ''INDICES'' 2 [first (typed ArrayContext c)]
     else if n = ''InfiniteNumberContext'' then Terminal ''NUMBER'' ''infinity'' None
     else if n = ''InlineTextContext'' then Terminal ''TEXT'' (getText TEXT c) None
     else if n = ''InversionExpressionContext'' then visitInversionExpression v g d r c
     else if n \<in> set ArrayContext then visitList v g d r c
     else if n = ''LogicalExpressionContext'' then visitLogicalExpression v g d r c
     else if n = ''MagnitudeExpressionContext'' then
       treeOf v g d r ''MAGNITUDE_EXPRESSION'' 2 [first (expressions c)]
     else if n = ''MessageExpressionContext'' then visitMessageExpression v g d r c
     else if n = ''MomentContext'' then Terminal ''MOMENT'' (getText MOMENT c) None
     else if n = ''NewlineTextContext'' then visitNewlineText d c
     else if n = ''NoneTemplateContext'' then Terminal ''TEMPLATE'' ''none'' None
     else if n = ''ParametersContext'' then
       treeOf v g d r ''PARAMETERS'' 2 [first (typed [''CompositeContext''] c)]
     else if n = ''PercentContext'' then
       Terminal ''PERCENT'' (str (v d r (first (typed RealContext c))) @ ''%'') None
     else if n = ''PrecedenceExpressionContext'' then
       treeOf v g d r ''PRECEDENCE_EXPRESSION'' 2 [first (expressions c)]
     else if n \<in> set ProcedureContext then visitProcedure v g d r c
     else if n = ''PublishClauseContext'' then
       treeOf v g d r ''PUBLISH_CLAUSE'' 8 [first (expressions c)]
     else if n = ''QueueClauseContext'' then
       treeOf v g d r ''QUEUE_CLAUSE'' 10 [item (expressions c) 0, item (expressions c) 1]
     else if n = ''RangeContext'' then
       treeOf v g d r ''RANGE'' 2 [item (expressions c) 0, item (expressions c) 1]
     else if n = ''RealNumberContext'' then
       Terminal ''NUMBER'' (str (v d r (first (typed RealContext c)))) None
     else if n = ''ReferenceContext'' then Terminal ''REFERENCE'' (getText RESOURCE c) None
     else if n = ''ReturnClauseContext'' then visitReturnClause v g d r c
     else if n = ''SaveClauseContext'' then
       treeOf v g d r ''SAVE_CLAUSE'' 9 [item (expressions c) 0, item (expressions c) 1]
     else if n = ''SelectClauseContext'' then visitSelectClause v g d r c
     else if n = ''StatementContext'' then visitStatement v g d r c
     else if n = ''StructureContext'' then
       treeOf v g d r ''STRUCTURE'' 2 [first (typed [''CompositeContext''] c)]
     else if n = ''SubcomponentExpressionContext'' then
       treeOf v g d r ''SUBCOMPONENT_EXPRESSION'' 0
         [first (expressions c), first (typed [''IndicesContext''] c)]
     else if n = ''SymbolContext'' then Terminal ''SYMBOL'' (getText SYMBOL c) None
     else if n = ''TagContext'' then Terminal ''TAG'' (getText TAG c) None
     else if n = ''ThrowClauseContext'' then
       treeOf v g d r ''THROW_CLAUSE'' 6 [first (expressions c)]
     else if n = ''TrueProbabilityContext'' then Terminal ''PROBABILITY'' ''true'' None
     else if n = ''UndefinedNumberContext'' then Terminal ''NUMBER'' ''undefined'' None
     else if n = ''VariableContext'' then Terminal ''VARIABLE'' (getText IDENTIFIER c) None
     else if n = ''VariableRealContext'' then JString (getText FLOAT c)
     else if n = ''VersionContext'' then Terminal ''VERSION'' (getText VERSION c) None
     else if n = ''WaitClauseContext'' then
       treeOf v g d r ''WAIT_CLAUSE'' 15 [first (typed [''SymbolContext''] c), first (expressions c)]
     else if n = ''WhileClauseContext'' then
       treeOf v g d r ''WHILE_CLAUSE'' 100 [first (expressions c), first (blocks c)]
     else if n = ''WithClauseContext'' then visitWithClause v g d r c
     else visitChildren v d r c)"

text \<open>
  \<open>accept\<close>: a rule context calls its visit method, a terminal node leaves the result as
  it is. A visit method calls \<open>accept\<close> on parts of its own context only, which is what the
  test on \<open>nodes\<close> says.
\<close>

function accept :: "grow \<Rightarrow> nat \<Rightarrow> node \<Rightarrow> ctx \<Rightarrow> node" where
  "accept g d r (Term t) = r"
| "accept g d r (Rule n l cs) =
     visit (\<lambda>d' r' c'. if nodes c' < nodes (Rule n l cs) then accept g d' r' c' else r')
       g d r (Rule n l cs)"
  by pat_completeness auto
termination
  by (relation "measure (\<lambda>(g, d, r, c). nodes c)") auto

definition convertParseTree :: "grow \<Rightarrow> ctx \<Rightarrow> node" where
  "convertParseTree g antlrTree = accept g 0 JUndefined antlrTree"

section \<open>The entry points of the parser module\<close>

text \<open>
  \<open>initializeParser\<close> builds the lexer, the token stream and the parser with the error
  listener and the error strategy above; the entry point runs one rule and converts the
  parse tree. The outcome is the error thrown or the value returned, together with the
  lines printed on the console. \<open>Unfinished\<close> is not an outcome of the program: it says
  that the fuel given to the model of the parser ran out.
\<close>

definition fuel :: "token list \<Rightarrow> nat" where
  "fuel ts = 10 * (length ts + 1)"

datatype outcome = Returned node | Threw error | Unfinished

definition parseRule :: "rule \<Rightarrow> grow \<Rightarrow> string \<Rightarrow> bool \<Rightarrow> outcome \<times> string list" where
  "parseRule r g source debug =
     (case BaliLanguageParser (fuel (tokenize source)) debug r 0 (tokenize source) of
        Inr (antlrTree, rest) \<Rightarrow> (Returned (convertParseTree g antlrTree), [])
      | Inl (Thrown e console) \<Rightarrow> (Threw e, console)
      | Inl (Recognition e) \<Rightarrow> (Unfinished, [])
      | Inl OutOfFuel \<Rightarrow> (Unfinished, []))"

definition parseDocument :: "grow \<Rightarrow> string \<Rightarrow> bool \<Rightarrow> outcome \<times> string list" where
  "parseDocument = parseRule RULE_document"

definition parseComponent :: "grow \<Rightarrow> string \<Rightarrow> bool \<Rightarrow> outcome \<times> string list" where
  "parseComponent = parseRule RULE_component"

definition parseParameters :: "grow \<Rightarrow> string \<Rightarrow> bool \<Rightarrow> outcome \<times> string list" where
  "parseParameters = parseRule RULE_parameters"

definition parseElement :: "grow \<Rightarrow> string \<Rightarrow> bool \<Rightarrow> outcome \<times> string list" where
  "parseElement = parseRule RULE_element"

definition parseStructure :: "grow \<Rightarrow> string \<Rightarrow> bool \<Rightarrow> outcome \<times> string list" where
  "parseStructure = parseRule RULE_structure"

definition parseRange :: "grow \<Rightarrow> string \<Rightarrow> bool \<Rightarrow> outcome \<times> string list" where
  "parseRange = parseRule RULE_range"

definition parseList :: "grow \<Rightarrow> string \<Rightarrow> bool \<Rightarrow> outcome \<times> string list" where
  "parseList = parseRule RULE_array"

definition parseCatalog :: "grow \<Rightarrow> string \<Rightarrow> bool \<Rightarrow> outcome \<times> string list" where
  "parseCatalog = parseRule RULE_table"

definition parseProcedure :: "grow \<Rightarrow> string \<Rightarrow> bool \<Rightarrow> outcome \<times> string list" where
  "parseProcedure = parseRule RULE_procedure"

definition parseExpression :: "grow \<Rightarrow> string \<Rightarrow> bool \<Rightarrow> outcome \<times> string list" where
  "parseExpression = parseRule RULE_expression"

section \<open>The transforming visitor: from the parse tree to a JavaScript object\<close>

text \<open>
  \<open>ParseTreeToObject\<close> walks a parse tree of the language grammar it was written for, whose
  rules its comments give (\<open>document: literal parameters?\<close>, \<open>literal: element | structure |
  block\<close>, \<open>value: expression\<close>, \<open>key: element parameters?\<close>, and so on). A context is again
  the name of its class, its labelled token and its children. The visitor throws one of
  two errors: \<open>TRANSFORMER: Bali expressions cannot be transformed into JavaScript
  objects.\<close> and \<open>TRANSFORMER: Bali statements cannot be transformed into JavaScript
  objects.\<close>

  The classes of \<open>objects\<close> are not part of the sources at hand: an object is what was
  passed to its constructor. \<open>WithParameters\<close> is an object whose \<open>parameters\<close> field was
  set; \<open>Pair\<close> is the plain object \<open>{key, value}\<close> of an association. What the visitor
  prints on the console is left out.
\<close>

datatype conversion_error = ExpressionsError | StatementsError

datatype obj =
    Any_ANY | Any_NONE
  | Binary string | Text string | Complex string | Complex_INFINITY | Complex_UNDEFINED
  | Probability string | Probability_TRUE | Probability_FALSE
  | Moment string | Percent string | Reference string | Symbol string | Tag string
  | Version_obj string
  | Range_obj obj obj
  | Composite "obj list" string
  | Pair obj obj
  | WithParameters obj obj
  | JsString string
  | JsUndefined

type_synonym transformer = "obj \<Rightarrow> ctx \<Rightarrow> conversion_error + obj"

definition bndT :: "conversion_error + 'a \<Rightarrow> ('a \<Rightarrow> conversion_error + 'b) \<Rightarrow> conversion_error + 'b" where
  "bndT m f = (case m of Inl e \<Rightarrow> Inl e | Inr x \<Rightarrow> f x)"

fun js_string :: "obj \<Rightarrow> string" where
  "js_string (JsString s) = s"
| "js_string JsUndefined = ''undefined''"
| "js_string x = ''[object Object]''"

text \<open>The contexts whose visit method only throws.\<close>

definition expression_classes :: "string list" where
  "expression_classes =
     [''ArithmeticExpressionContext'', ''ComparisonExpressionContext'',
      ''ComplementExpressionContext'', ''ComponentExpressionContext'',
      ''DefaultExpressionContext'', ''DereferenceExpressionContext'',
      ''ExponentialExpressionContext'', ''FactorialExpressionContext'',
      ''FunctionExpressionContext'', ''IndicesContext'', ''InversionExpressionContext'',
      ''LogicalExpressionContext'', ''MagnitudeExpressionContext'',
      ''MessageExpressionContext'', ''PrecedenceExpressionContext'',
      ''VariableExpressionContext'']"

definition statement_classes :: "string list" where
  "statement_classes =
     [''AssigneeContext'', ''BlockContext'', ''BreakFromContext'', ''CheckoutDocumentContext'',
      ''CommitDraftContext'', ''ComponentContext'', ''ConditionContext'', ''ContinueToContext'',
      ''DiscardDraftContext'', ''DraftContext'', ''EmptyStatementsContext'',
      ''EvaluateExpressionContext'', ''EventContext'', ''XceptionContext'',
      ''ExceptionClauseContext'', ''FinalClauseContext'', ''IfThenContext'',
      ''InlineStatementsContext'', ''LabelContext'', ''LocationContext'', ''MainClauseContext'',
      ''MessageContext'', ''NewlineStatementsContext'', ''OptionContext'', ''PublishEventContext'',
      ''QueueContext'', ''QueueMessageContext'', ''ResultContext'', ''ReturnResultContext'',
      ''SaveDraftContext'', ''ScriptContext'', ''SelectFromContext'', ''SelectionContext'',
      ''SequenceContext'', ''StatementContext'', ''TemplateContext'', ''ThrowExceptionContext'',
      ''VariableContext'', ''WaitForMessageContext'', ''WhileLoopContext'', ''WithLoopContext'']"

text \<open>
  The alternatives of the rule \<open>expression\<close>: what \<open>ctx.expression()\<close> of a value may be.
\<close>

definition expression_alternatives :: "string list" where
  "expression_alternatives =
     [''DocumentExpressionContext'', ''VariableExpressionContext'',
      ''FunctionExpressionContext'', ''PrecedenceExpressionContext'',
      ''DereferenceExpressionContext'', ''MessageExpressionContext'',
      ''ComponentExpressionContext'', ''FactorialExpressionContext'',
      ''ExponentialExpressionContext'', ''InversionExpressionContext'',
      ''ArithmeticExpressionContext'', ''MagnitudeExpressionContext'',
      ''ComparisonExpressionContext'', ''ComplementExpressionContext'',
      ''LogicalExpressionContext'', ''DefaultExpressionContext'']"

text \<open>
  A constant real keeps its \<open>sign\<close> token as the label of the context; its \<open>con\<close> token
  is the last token of the rule.
\<close>

definition con_text :: "ctx \<Rightarrow> string" where
  "con_text c =
     (case rev (ctx_children c) of Term t # _ \<Rightarrow> snd t | _ \<Rightarrow> [])"

text \<open>Visit the contexts in order; the results, and the \<open>result\<close> field at the end.\<close>

fun visitEach :: "transformer \<Rightarrow> ctx list \<Rightarrow> obj \<Rightarrow> conversion_error + obj list \<times> obj" where
  "visitEach v [] r = Inr ([], r)"
| "visitEach v (c # cs) r =
     bndT (v r c) (\<lambda>r1. bndT (visitEach v cs r1) (\<lambda>(rs, r2). Inr (r1 # rs, r2)))"

definition visitChildrenT :: "transformer \<Rightarrow> obj \<Rightarrow> ctx \<Rightarrow> conversion_error + obj" where
  "visitChildrenT v r c = bndT (visitEach v (ctx_children c) r) (\<lambda>(rs, r1). Inr r1)"

definition visitArray :: "transformer \<Rightarrow> obj \<Rightarrow> ctx \<Rightarrow> conversion_error + obj" where
  "visitArray v r c =
     (if ctx_name c \<noteq> ''EmptyArrayContext''
      then bndT (visitEach v (typed [''ValueContext''] c) r) (\<lambda>(rs, r1).
             Inr (Composite rs (ctx_name c)))
      else Inr (Composite [] (ctx_name c)))"

definition visitTable :: "transformer \<Rightarrow> obj \<Rightarrow> ctx \<Rightarrow> conversion_error + obj" where
  "visitTable v r c =
     (if ctx_name c \<noteq> ''EmptyTableContext''
      then bndT (visitEach v (typed [''AssociationContext''] c) r) (\<lambda>(rs, r1).
             Inr (Composite rs (ctx_name c)))
      else Inr (Composite [] (ctx_name c)))"

definition visitAssociationT :: "transformer \<Rightarrow> obj \<Rightarrow> ctx \<Rightarrow> conversion_error + obj" where
  "visitAssociationT v r c =
     bndT (v r (first (typed [''KeyContext''] c))) (\<lambda>key.
     bndT (v key (first (typed [''ValueContext''] c))) (\<lambda>val. Inr (Pair key val)))"

text \<open>\<open>visitDocument\<close> and \<open>visitKey\<close>: the literal or element, with its parameters if any.\<close>

definition visitParameterized :: "string \<Rightarrow> transformer \<Rightarrow> obj \<Rightarrow> ctx \<Rightarrow> conversion_error + obj" where
  "visitParameterized cls v r c =
     bndT (v r (first (typed [cls] c))) (\<lambda>literal.
       case typed [''ParametersContext''] c of
         [] \<Rightarrow> Inr literal
       | ps # _ \<Rightarrow> bndT (v literal ps) (\<lambda>p. Inr (WithParameters literal p)))"

definition real_classes :: "string list" where
  "real_classes = [''VariableRealContext'', ''ConstantRealContext'']"

definition visitComplexNumberT :: "transformer \<Rightarrow> obj \<Rightarrow> ctx \<Rightarrow> conversion_error + obj" where
  "visitComplexNumberT v r c =
     bndT (v r (first (typed real_classes c))) (\<lambda>re.
     bndT (v re (first (typed [''ImaginaryContext''] c))) (\<lambda>im.
       Inr (Complex (''('' @ js_string re @ label_text c @ js_string im @ '')''))))"

definition visitImaginaryT :: "transformer \<Rightarrow> obj \<Rightarrow> ctx \<Rightarrow> conversion_error + obj" where
  "visitImaginaryT v r c =
     (case typed real_classes c of
        re # _ \<Rightarrow>
          bndT (v r re) (\<lambda>x. Inr (JsString (js_string x
            @ (if ctx_name re = ''ConstantRealContext'' then '' '' else '''') @ ''i'')))
      | [] \<Rightarrow> Inr (JsString ((if ctx_label c \<noteq> None then ''-'' else '''') @ ''i'')))"

definition visitT :: "transformer \<Rightarrow> obj \<Rightarrow> ctx \<Rightarrow> conversion_error + obj" where
  "visitT v r c = (let n = ctx_name c in
     if n \<in> set expression_classes then Inl ExpressionsError
     else if n \<in> set statement_classes then Inl StatementsError
     else if n = ''AnyAnyContext'' then Inr Any_ANY
     else if n \<in> set [''InlineArrayContext'', ''NewlineArrayContext'', ''EmptyArrayContext'']
       then visitArray v r c
     else if n = ''AssociationContext'' then visitAssociationT v r c
     else if n = ''BinaryContext'' then Inr (Binary (getText BINARY c))
     else if n = ''BlockTextContext'' then Inr (Text (getText TEXT_BLOCK c))
     else if n = ''ComplexNumberContext'' then visitComplexNumberT v r c
     else if n = ''ConstantRealContext'' then
       Inr (JsString ((if ctx_label c \<noteq> None then ''-'' else '''') @ con_text c))
     else if n = ''DocumentContext'' then visitParameterized ''LiteralContext'' v r c
     else if n = ''DocumentExpressionContext'' then v r (first (typed [''DocumentContext''] c))
     else if n = ''FalseProbabilityContext'' then Inr Probability_FALSE
     else if n = ''FractionalProbabilityContext'' then Inr (Probability (getText FRACTION c))
     else if n = ''ImaginaryContext'' then visitImaginaryT v r c
     else if n = ''ImaginaryNumberContext'' then
       bndT (v r (first (typed [''ImaginaryContext''] c))) (\<lambda>im.
         Inr (Complex (''(0, '' @ js_string im @ '')'')))
     else if n = ''InfiniteNumberContext'' then Inr Complex_INFINITY
     else if n \<in> set [''InlineTableContext'', ''NewlineTableContext'', ''EmptyTableContext'']
       then visitTable v r c
     else if n = ''InlineTextContext'' then Inr (Text (getText TEXT c))
     else if n = ''KeyContext'' then visitParameterized ''ElementContext'' v r c
     else if n = ''MomentContext'' then Inr (Moment (getText MOMENT c))
     else if n = ''NoneAnyContext'' then Inr Any_NONE
     else if n = ''ParametersContext'' then v r (first (typed [''CompositeContext''] c))
     else if n = ''PercentContext'' then
       bndT (v r (first (typed real_classes c))) (\<lambda>re. Inr (Percent (js_string re @ ''%'')))
     else if n = ''RangeContext'' then
       bndT (v r (item (typed [''ValueContext''] c) 0)) (\<lambda>firstValue.
       bndT (v firstValue (item (typed [''ValueContext''] c) 1)) (\<lambda>lastValue.
         Inr (Range_obj firstValue lastValue)))
     else if n = ''RealNumberContext'' then
       bndT (v r (first (typed real_classes c))) (\<lambda>re. Inr (Complex (js_string re)))
     else if n = ''ReferenceContext'' then Inr (Reference (getText RESOURCE c))
     else if n = ''StructureContext'' then v r (first (typed [''CompositeContext''] c))
     else if n = ''SymbolContext'' then Inr (Symbol (getText SYMBOL c))
     else if n = ''TagContext'' then Inr (Tag (getText TAG c))
     else if n = ''TrueProbabilityContext'' then Inr Probability_TRUE
     else if n = ''UndefinedNumberContext'' then Inr Complex_UNDEFINED
     else if n = ''ValueContext'' then v r (first (typed expression_alternatives c))
     else if n = ''VariableRealContext'' then Inr (JsString (getText FLOAT c))
     else if n = ''VersionContext'' then Inr (Version_obj (getText VERSION c))
     else visitChildrenT v r c)"

function acceptT :: "obj \<Rightarrow> ctx \<Rightarrow> conversion_error + obj" where
  "acceptT r (Term t) = Inr r"
| "acceptT r (Rule n l cs) =
     visitT (\<lambda>r' c'. if nodes c' < nodes (Rule n l cs) then acceptT r' c' else Inr r')
       r (Rule n l cs)"
  by pat_completeness auto
termination
  by (relation "measure (\<lambda>(r, c). nodes c)") auto

definition generateJavaScriptObject :: "ctx \<Rightarrow> conversion_error + obj" where
  "generateJavaScriptObject parseTree = acceptT JsUndefined parseTree"

section \<open>The version element: src/abstractions/Collection.js (Version)\<close>





section \<open>Reading the outcome of a parse\<close>

text \<open>
  The tree of nodes without the sizes, which depend on \<open>Tree.addChild\<close>: the types, the
  operators, the values and the order of the children.
\<close>

fun shape :: "node \<Rightarrow> node" where
  "shape (Tree t opr sz cs) = Tree t opr 0 (map shape cs)"
| "shape (Terminal t v sz) = Terminal t v None"
| "shape (BaliDocument p c ss) =
     BaliDocument (map_option shape p) (shape c) (map (\<lambda>(a, b). (shape a, shape b)) ss)"
| "shape n = n"

fun ast :: "outcome \<times> string list \<Rightarrow> node option" where
  "ast (Returned n, console) = Some n"
| "ast (x, console) = None"

definition returned :: "outcome \<times> string list \<Rightarrow> node option" where
  "returned x = map_option shape (ast x)"

text \<open>The parse tree that the parser hands to the visitor.\<close>

definition parseTree :: "rule \<Rightarrow> string \<Rightarrow> ctx option" where
  "parseTree r source =
     (case BaliLanguageParser (fuel (tokenize source)) False r 0 (tokenize source) of
        Inr (antlrTree, rest) \<Rightarrow> Some antlrTree
      | Inl e \<Rightarrow> None)"

text \<open>The classes of the contexts of the first statement of a procedure.\<close>

definition clauses :: "ctx option \<Rightarrow> string list" where
  "clauses t = (case t of
     Some (Rule n l (Rule m k cs # rest)) \<Rightarrow> map ctx_name cs
   | _ \<Rightarrow> [])"

definition newline :: string where
  "newline = [char_of (10::nat)]"

text \<open>An \<open>addChild\<close> that leaves the size alone, for the examples that need one.\<close>

definition no_growth :: grow where
  "no_growth sz child = sz"

text \<open>Nodes that the examples below are made of.\<close>

definition tree :: "string \<Rightarrow> node list \<Rightarrow> node" where
  "tree t cs = Tree t None 0 cs"

definition operation :: "string \<Rightarrow> string \<Rightarrow> node list \<Rightarrow> node" where
  "operation t opr cs = Tree t (Some opr) 0 cs"

definition num :: "string \<Rightarrow> node" where
  "num s = tree ''COMPONENT'' [Terminal ''NUMBER'' s None]"

definition var :: "string \<Rightarrow> node" where
  "var s = Terminal ''VARIABLE'' s None"

section \<open>What the debug flag can change\<close>

text \<open>
  \<open>relabel h\<close> rewrites the console lines that a thrown error carries and leaves everything
  else of a result alone.
\<close>

definition relabel :: "(string list \<Rightarrow> string list) \<Rightarrow> 'a res \<Rightarrow> 'a res" where
  "relabel h x = (case x of Inl (Thrown e c) \<Rightarrow> Inl (Thrown e (h c)) | _ \<Rightarrow> x)"

definition relabels :: "(string list \<Rightarrow> string list) \<Rightarrow> bool \<Rightarrow> bool \<Rightarrow> bool" where
  "relabels h d d' = (h [] = [] \<and> (\<forall>m. h (syntaxError d m) = syntaxError d' m) \<and> (d' \<longrightarrow> d))"

section \<open>The tokens of a parse tree\<close>

text \<open>
  The tokens at the leaves of a parse tree, from left to right. The end of the input is
  matched but never consumed, so it is no leaf. A step of a rule method \<open>keeps\<close> the
  tokens when the leaves of the children built so far, followed by the input left, stay
  the same; a parser is \<open>exact\<close> when the leaves of every tree it returns, followed by the
  input it leaves, are the input it was given.
\<close>

fun leaves :: "ctx \<Rightarrow> token list" where
  "leaves (Term t) = (if fst t = EOF then [] else [t])"
| "leaves (Rule n l cs) = concat (map leaves cs)"

definition flat :: "pstate \<Rightarrow> token list" where
  "flat st = concat (map leaves (children st)) @ input st"

definition keeps :: "step \<Rightarrow> bool" where
  "keeps f = (\<forall>st st'. f st = Inr st' \<longrightarrow> flat st' = flat st)"





section \<open>The round trip through the formatter\<close>

text \<open>
  Modelled from the spec: the formatter is not among the sources, so it is the parameter
  \<open>format\<close>, any function from nodes to text. \<open>round_trip format g D\<close> is the round-trip law
  for the source \<open>D\<close> in the spec's words: when \<open>D\<close> parses, formatting its tree of nodes
  gives \<open>D\<close> again, and parsing that text gives the same tree.
\<close>

definition round_trip :: "(node \<Rightarrow> string) \<Rightarrow> grow \<Rightarrow> string \<Rightarrow> bool" where
  "round_trip format g D =
     (case ast (parseDocument g D False) of
        None \<Rightarrow> True
      | Some a \<Rightarrow> format a = D \<and> ast (parseDocument g (format a) False) = Some a)"

section \<open>Parse trees for the transforming visitor\<close>

text \<open>
  The parse trees of \<open>5\<close>, \<open>[1,2,3]\<close> and \<open>{}\<close> in the grammar of the transforming visitor,
  built by hand from the rules in its comments (the parser generated from that grammar is
  not among the sources).
\<close>

definition numberDocument :: "string \<Rightarrow> ctx" where
  "numberDocument s =
     Rule ''DocumentContext'' None [Rule ''LiteralContext'' None [Rule ''ElementContext'' None
       [Rule ''RealNumberContext'' None [Rule ''VariableRealContext'' None [Term (FLOAT, s)]]]]]"

definition valueOf :: "ctx \<Rightarrow> ctx" where
  "valueOf d = Rule ''ValueContext'' None [Rule ''DocumentExpressionContext'' None [d]]"

definition arrayDocument :: "ctx list \<Rightarrow> ctx" where
  "arrayDocument vs =
     Rule ''DocumentContext'' None [Rule ''LiteralContext'' None [Rule ''StructureContext'' None
       [Term (T 0, ''[''),
        Rule ''CompositeContext'' None [Rule ''InlineArrayContext'' None vs],
        Term (T 1, '']'')]]]"

definition oneTwoThree :: ctx where
  "oneTwoThree = arrayDocument
     [valueOf (numberDocument ''1''), Term (T 5, '',''),
      valueOf (numberDocument ''2''), Term (T 5, '',''),
      valueOf (numberDocument ''3'')]"

definition emptyBlock :: ctx where
  "emptyBlock =
     Rule ''DocumentContext'' None [Rule ''LiteralContext'' None [Rule ''BlockContext'' None
       [Term (T 7, ''{''), Rule ''EmptyStatementsContext'' None [], Term (T 8, ''}'')]]]"

definition sum_2_3 :: ctx where
  "sum_2_3 = arrayDocument
     [Rule ''ValueContext'' None [Rule ''ArithmeticExpressionContext'' (Some (T 42, ''+''))
        [Rule ''DocumentExpressionContext'' None [numberDocument ''2''], Term (T 42, ''+''),
         Rule ''DocumentExpressionContext'' None [numberDocument ''3'']]]]"

(*THEOREMS*)

section \<open>Evaluation\<close>

text \<open>
  Two lists are compared from the left, and the comparison stops at the first difference.
\<close>

lemma equal_list_lazy [code]:
  "HOL.equal (x # xs) (y # ys) \<longleftrightarrow> (if x = y then HOL.equal xs ys else False)"
  "HOL.equal [] (y # ys) \<longleftrightarrow> False"
  "HOL.equal (x # xs) [] \<longleftrightarrow> False"
  "HOL.equal ([] :: 'a::equal list) [] \<longleftrightarrow> True"
  by (simp_all add: equal)

section \<open>Properties of the token rules\<close>

lemma star_rems_decomp:
  assumes m: "\<And>s r. r \<in> set (m s) \<Longrightarrow> \<exists>w. s = w @ r \<and> P w"
  shows "r \<in> set (star_rems m n s) \<Longrightarrow> \<exists>ws. s = concat ws @ r \<and> (\<forall>w\<in>set ws. P w)"
proof (induction n arbitrary: s)
  case 0
  then have "s = concat [] @ r" by simp
  then show ?case by (metis empty_iff list.set(1))
next
  case (Suc n)
  from Suc.prems have "r = s \<or> (\<exists>t\<in>set (m s). r \<in> set (star_rems m n t))"
    by auto
  then show ?case
  proof
    assume "r = s"
    then have "s = concat [] @ r" by simp
    then show ?thesis by (metis empty_iff list.set(1))
  next
    assume "\<exists>t\<in>set (m s). r \<in> set (star_rems m n t)"
    then obtain t where t: "t \<in> set (m s)" and r: "r \<in> set (star_rems m n t)" by blast
    from m [OF t] obtain w where w: "s = w @ t" "P w" by blast
    from Suc.IH [OF r] obtain ws where ws: "t = concat ws @ r" "\<forall>w\<in>set ws. P w" by blast
    have "s = concat (w # ws) @ r" using w ws by simp
    moreover have "\<forall>x\<in>set (w # ws). P x" using w ws by simp
    ultimately show ?thesis by blast
  qed
qed

lemma rems_digit:
  "r \<in> set (rems digit s) \<Longrightarrow> \<exists>w. s = w @ r \<and> (\<exists>d. w = [d] \<and> in_range CHR ''0'' CHR ''9'' d)"
  by (auto simp: digit_def split: list.splits if_splits)

lemma rems_digits:
  assumes "r \<in> set (rems (Star digit) s)"
  shows "\<exists>ds. s = ds @ r \<and> (\<forall>d\<in>set ds. in_range CHR ''0'' CHR ''9'' d)"
proof -
  from assms have "r \<in> set (star_rems (rems digit) (length s) s)" by simp
  from star_rems_decomp [where P = "\<lambda>w. \<exists>d. w = [d] \<and> in_range CHR ''0'' CHR ''9'' d",
      OF rems_digit this]
  obtain ws where ws: "s = concat ws @ r"
      "\<forall>w\<in>set ws. \<exists>d. w = [d] \<and> in_range CHR ''0'' CHR ''9'' d"
    by blast
  have "\<forall>d\<in>set (concat ws). in_range CHR ''0'' CHR ''9'' d" using ws(2) by fastforce
  with ws(1) show ?thesis by blast
qed





lemma FRACTION_last:
  assumes "matches FRACTION_rx s"
  shows "s \<noteq> [] \<and> in_range CHR ''1'' CHR ''9'' (last s)"
proof -
  from assms obtain s1 r where s: "s = CHR ''.'' # s1" "r \<in> set (rems (Star digit) s1)"
     "[] \<in> set (rems (Rng CHR ''1'' CHR ''9'') r)"
    by (auto simp: matches_def FRACTION_rx_def split: list.splits if_splits)
  from s(3) obtain c where c: "r = [c]" "in_range CHR ''1'' CHR ''9'' c"
    by (auto split: list.splits if_splits)
  from rems_digits [OF s(2)] obtain ds where "s1 = ds @ r" by blast
  then show ?thesis using s(1) c by simp
qed

lemma FRACTION_examples:
  "matches FRACTION_rx ''.5'' \<and> matches FRACTION_rx ''.125'' \<and> \<not> matches FRACTION_rx ''.10''"
  by code_simp

lemma FRACTION_tokens:
  "tokenize ''.5'' = [(FRACTION, ''.5''), (EOF, ''<EOF>'')] \<and>
   tokenize ''.125'' = [(FRACTION, ''.125''), (EOF, ''<EOF>'')] \<and>
   tokenize ''.10'' = [(FRACTION, ''.1''), (FLOAT, ''0''), (EOF, ''<EOF>'')]"
  by code_simp

text \<open>
  C8. The \<open>FRACTION\<close> rule accepts only texts whose last character is a digit \<open>1\<close> to \<open>9\<close>:
  \<open>.5\<close> and \<open>.125\<close> are \<open>FRACTION\<close> tokens, \<open>.10\<close> is not (the lexer stops the \<open>FRACTION\<close>
  token after \<open>.1\<close>), and no text accepted by the rule ends in \<open>0\<close>.
\<close>

theorem FRACTION_final_digit_nonzero:
  "tokenize ''.5'' = [(FRACTION, ''.5''), (EOF, ''<EOF>'')] \<and>
   tokenize ''.125'' = [(FRACTION, ''.125''), (EOF, ''<EOF>'')] \<and>
   \<not> matches FRACTION_rx ''.10'' \<and>
   (FRACTION, ''.10'') \<notin> set (tokenize ''.10'') \<and>
   (\<forall>s. matches FRACTION_rx s \<longrightarrow> s \<noteq> [] \<and> in_range CHR ''1'' CHR ''9'' (last s))"
  using FRACTION_examples FRACTION_tokens FRACTION_last by simp

theorem FRACTION_final_digit_nonzero_witness:
  "matches FRACTION_rx ''.125'' \<and> ''.125'' \<noteq> [] \<and> in_range CHR ''1'' CHR ''9'' (last ''.125'')"
  using FRACTION_final_digit_nonzero FRACTION_examples by blast






section \<open>Properties of the parser\<close>

subsection \<open>The console lines of a thrown error\<close>

lemma relabel_Inr: "relabel h (Inr x) = Inr x"
  by (simp add: relabel_def)

lemma relabel_Recognition: "relabel h (Inl (Recognition e)) = Inl (Recognition e)"
  by (simp add: relabel_def)

lemma relabel_OutOfFuel: "relabel h (Inl OutOfFuel) = Inl OutOfFuel"
  by (simp add: relabel_def)

lemma relabel_Thrown: "relabel h (Inl (Thrown e c)) = Inl (Thrown e (h c))"
  by (simp add: relabel_def)

lemma relabel_bnd: "relabel h (bnd m f) = bnd (relabel h m) (\<lambda>x. relabel h (f x))"
  by (simp add: relabel_def bnd_def split: sum.splits signal.splits)

lemma relabel_if: "relabel h (if b then x else y) = (if b then relabel h x else relabel h y)"
  by simp

lemma relabel_prod: "relabel h (case q of (a, b) \<Rightarrow> f a b) = (case q of (a, b) \<Rightarrow> relabel h (f a b))"
  by (cases q) simp

lemma relabel_LA: "relabels h d d' \<Longrightarrow> relabel h (LA d k ts) = LA d' k ts"
  by (induction d k ts rule: LA.induct)
     (simp_all add: relabel_Inr lexer_recover_def relabel_Thrown relabels_def)

lemma relabel_reportError:
  assumes "relabels h d d'"
  shows "h (reportError d e) = reportError d' e"
proof -
  have quiet: "syntaxError False m = []" for m
    by (simp add: syntaxError_def)
  from assms have "h [] = []" and "h (syntaxError d m) = syntaxError d' m" and "d' \<longrightarrow> d" for m
    by (simp_all add: relabels_def)
  then show ?thesis
    using quiet by (cases e; cases d; cases d'; simp add: reportError_def)
qed

lemma relabel_recoverInline: "relabels h d d' \<Longrightarrow> relabel h (recoverInline st) = recoverInline st"
  by (simp add: recoverInline_def recover_def relabel_Thrown relabels_def)

lemma relabel_noViableAlt: "relabel h (noViableAlt st) = noViableAlt st"
  by (simp add: noViableAlt_def relabel_Recognition)

lemma relabel_consume: "relabel h (consume st) = consume st"
  by (simp add: consume_def relabel_Inr)

lemma relabel_match: "relabels h d d' \<Longrightarrow> relabel h (match d k st) = match d' k st"
  by (simp add: match_def relabel_bnd relabel_LA relabel_if relabel_consume relabel_recoverInline del: steps.simps cong del: if_weak_cong)

lemma relabel_match_in: "relabels h d d' \<Longrightarrow> relabel h (match_in d ks st) = match_in d' ks st"
  by (simp add: match_in_def relabel_bnd relabel_LA relabel_if relabel_consume relabel_recoverInline del: steps.simps cong del: if_weak_cong)

lemma relabel_match_label: "relabels h d d' \<Longrightarrow> relabel h (match_label d k st) = match_label d' k st"
  by (simp add: match_label_def relabel_match)

lemma relabel_call:
  "(\<And>r p ts. relabel h (rec r p ts) = rec' r p ts) \<Longrightarrow> relabel h (call rec r p st) = call rec' r p st"
  by (simp add: call_def relabel_bnd relabel_prod relabel_Inr)

lemma ahead_relabel:
  assumes "\<And>r p ts. relabel h (rec r p ts) = rec' r p ts"
  shows "ahead rec r ts = ahead rec' r ts"
proof -
  have "rec' r 0 ts = relabel h (rec r 0 ts)"
    using assms by simp
  then show ?thesis
    by (simp add: ahead_def relabel_def split: sum.splits signal.splits)
qed

lemma relabel_steps:
  "relabel h (steps fs st) = steps (map (\<lambda>f st. relabel h (f st)) fs) st"
  by (induction fs arbitrary: st) (simp_all add: relabel_Inr relabel_bnd)

lemma relabel_steps_list:
  "relabel h (steps (f # fs) st) = steps ((\<lambda>st. relabel h (f st)) # map (\<lambda>f st. relabel h (f st)) fs) st"
  "relabel h (steps [] st) = steps [] st"
  by (simp_all add: relabel_steps relabel_bnd relabel_Inr)

lemma relabel_la_in: "relabels h d d' \<Longrightarrow> relabel h (la_in d ks st) = la_in d' ks st"
  by (simp add: la_in_def relabel_bnd relabel_LA relabel_Inr)

lemma relabel_optional:
  "relabel h (optional c body st) = optional (\<lambda>st. relabel h (c st)) (\<lambda>st. relabel h (body st)) st"
  by (simp add: optional_def relabel_bnd relabel_if relabel_Inr del: steps.simps cong del: if_weak_cong)

lemma relabel_loop:
  "relabel h (loop n c body st) = loop n (\<lambda>st. relabel h (c st)) (\<lambda>st. relabel h (body st)) st"
  by (induction n arbitrary: st) (simp_all add: relabel_OutOfFuel relabel_bnd relabel_if relabel_Inr del: steps.simps cong del: if_weak_cong)

lemma relabel_while_loop:
  "relabel h (while_loop c body st) =
     while_loop (\<lambda>st. relabel h (c st)) (\<lambda>st. relabel h (body st)) st"
  unfolding while_loop_def by (rule relabel_loop)

lemma relabel_exitRule: "relabel h (exitRule n x) = exitRule n (relabel h x)"
  by (simp add: exitRule_def relabel_bnd relabel_Inr)

lemma relabel_pushNewRecursionContext:
  "relabel h (pushNewRecursionContext n x) = pushNewRecursionContext n (relabel h x)"
  by (simp add: pushNewRecursionContext_def relabel_bnd relabel_Inr)

lemma relabel_failedPredicate: "relabel h (failedPredicate p k st) = failedPredicate p k st"
  by (simp add: failedPredicate_def relabel_Inr relabel_Recognition)

lemma relabel_la_seq: "relabels h d d' \<Longrightarrow> relabel h (la_seq d kss ts) = la_seq d' kss ts"
  by (induction d kss ts rule: la_seq.induct)
     (simp_all add: relabel_Inr relabel_bnd relabel_LA relabel_if cong: if_cong)

lemmas relabel_basics =
  relabel_Inr relabel_bnd relabel_if relabel_prod relabel_LA relabel_noViableAlt relabel_match
  relabel_match_in relabel_match_label relabel_steps_list relabel_la_in relabel_optional
  relabel_while_loop relabel_exitRule relabel_pushNewRecursionContext relabel_failedPredicate
  relabel_la_seq

lemma relabel_token_rule:
  "relabels h d d' \<Longrightarrow> relabel h (token_rule n k d ts) = token_rule n k d' ts"
  by (simp add: token_rule_def relabel_basics del: steps.simps cong del: if_weak_cong)

lemma relabel_predict_parameters:
  "relabels h d d' \<Longrightarrow> relabel h (predict_parameters d st) = predict_parameters d' st"
  by (simp add: predict_parameters_def relabel_basics del: steps.simps cong del: if_weak_cong)

lemma relabel_adaptivePredict_4:
  assumes "\<And>r p ts. relabel h (rec r p ts) = rec' r p ts" and "relabels h d d'"
  shows "relabel h (adaptivePredict_4 rec d st) = adaptivePredict_4 rec' d' st"
  using assms(2) by (simp add: adaptivePredict_4_def relabel_basics ahead_relabel [OF assms(1)] del: steps.simps cong del: if_weak_cong)

lemma relabel_adaptivePredict_16:
  "relabels h d d' \<Longrightarrow> relabel h (adaptivePredict_16 d st) = adaptivePredict_16 d' st"
  by (simp add: adaptivePredict_16_def relabel_basics del: steps.simps cong del: if_weak_cong)

lemma relabel_adaptivePredict_17:
  "relabels h d d' \<Longrightarrow> relabel h (adaptivePredict_17 d st) = adaptivePredict_17 d' st"
  by (simp add: adaptivePredict_17_def relabel_basics del: steps.simps cong del: if_weak_cong)

lemma relabel_adaptivePredict_21:
  assumes "\<And>r p ts. relabel h (rec r p ts) = rec' r p ts" and "relabels h d d'"
  shows "relabel h (adaptivePredict_21 rec d st) = adaptivePredict_21 rec' d' st"
  using assms(2) by (simp add: adaptivePredict_21_def relabel_basics ahead_relabel [OF assms(1)] del: steps.simps cong del: if_weak_cong)

lemma relabel_adaptivePredict_22:
  "relabels h d d' \<Longrightarrow> relabel h (adaptivePredict_22 d st) = adaptivePredict_22 d' st"
  by (simp add: adaptivePredict_22_def relabel_basics del: steps.simps cong del: if_weak_cong)

lemma relabel_adaptivePredict_32:
  "relabels h d d' \<Longrightarrow> relabel h (adaptivePredict_32 d st) = adaptivePredict_32 d' st"
  by (simp add: adaptivePredict_32_def relabel_basics del: steps.simps cong del: if_weak_cong)

lemma relabel_adaptivePredict_33:
  "relabels h d d' \<Longrightarrow> relabel h (adaptivePredict_33 d p st) = adaptivePredict_33 d' p st"
  by (simp add: adaptivePredict_33_def relabel_basics del: steps.simps cong del: if_weak_cong)

lemma relabel_adaptivePredict_35:
  "relabels h d d' \<Longrightarrow> relabel h (adaptivePredict_35 d st) = adaptivePredict_35 d' st"
  by (simp add: adaptivePredict_35_def relabel_basics del: steps.simps cong del: if_weak_cong)

lemma relabel_adaptivePredict_37:
  "relabels h d d' \<Longrightarrow> relabel h (adaptivePredict_37 d st) = adaptivePredict_37 d' st"
  by (simp add: adaptivePredict_37_def relabel_basics del: steps.simps cong del: if_weak_cong)

lemma relabel_adaptivePredict_38:
  "relabels h d d' \<Longrightarrow> relabel h (adaptivePredict_38 d st) = adaptivePredict_38 d' st"
  by (simp add: adaptivePredict_38_def relabel_basics del: steps.simps cong del: if_weak_cong)

lemmas relabel_predictions =
  relabel_token_rule relabel_predict_parameters relabel_adaptivePredict_16
  relabel_adaptivePredict_17 relabel_adaptivePredict_22 relabel_adaptivePredict_32
  relabel_adaptivePredict_33 relabel_adaptivePredict_35 relabel_adaptivePredict_37
  relabel_adaptivePredict_38

lemmas relabel_rules = relabel_basics relabel_predictions list.map

lemma relabel_probability:
  "relabels h d d' \<Longrightarrow> relabel h (probability d ts) = probability d' ts"
  unfolding probability_def by (simp only: relabel_rules cong del: if_weak_cong)

lemma relabel_real_rule:
  "relabels h d d' \<Longrightarrow> relabel h (real_rule d ts) = real_rule d' ts"
  unfolding real_rule_def by (simp only: relabel_rules cong del: if_weak_cong)

lemma relabel_template:
  "relabels h d d' \<Longrightarrow> relabel h (template d ts) = template d' ts"
  unfolding template_def by (simp only: relabel_rules cong del: if_weak_cong)

lemma relabel_text_rule:
  "relabels h d d' \<Longrightarrow> relabel h (text_rule d ts) = text_rule d' ts"
  unfolding text_rule_def by (simp only: relabel_rules cong del: if_weak_cong)

lemma relabel_document:
  assumes "\<And>r p ts. relabel h (rec r p ts) = rec' r p ts" and "relabels h d d'"
  shows "relabel h (document rec d ts) = document rec' d' ts"
  using assms(2) unfolding document_def
  by (simp only: relabel_rules relabel_call [OF assms(1)]
      relabel_adaptivePredict_4 [OF assms] relabel_adaptivePredict_21 [OF assms]
      cong del: if_weak_cong)

lemma relabel_component:
  assumes "\<And>r p ts. relabel h (rec r p ts) = rec' r p ts" and "relabels h d d'"
  shows "relabel h (component rec d ts) = component rec' d' ts"
  using assms(2) unfolding component_def
  by (simp only: relabel_rules relabel_call [OF assms(1)]
      relabel_adaptivePredict_4 [OF assms] relabel_adaptivePredict_21 [OF assms]
      cong del: if_weak_cong)

lemma relabel_structure_rule:
  assumes "\<And>r p ts. relabel h (rec r p ts) = rec' r p ts" and "relabels h d d'"
  shows "relabel h (structure_rule rec d ts) = structure_rule rec' d' ts"
  using assms(2) unfolding structure_rule_def
  by (simp only: relabel_rules relabel_call [OF assms(1)]
      relabel_adaptivePredict_4 [OF assms] relabel_adaptivePredict_21 [OF assms]
      cong del: if_weak_cong)

lemma relabel_parameters:
  assumes "\<And>r p ts. relabel h (rec r p ts) = rec' r p ts" and "relabels h d d'"
  shows "relabel h (parameters rec d ts) = parameters rec' d' ts"
  using assms(2) unfolding parameters_def
  by (simp only: relabel_rules relabel_call [OF assms(1)]
      relabel_adaptivePredict_4 [OF assms] relabel_adaptivePredict_21 [OF assms]
      cong del: if_weak_cong)

lemma relabel_composite:
  assumes "\<And>r p ts. relabel h (rec r p ts) = rec' r p ts" and "relabels h d d'"
  shows "relabel h (composite rec d ts) = composite rec' d' ts"
  using assms(2) unfolding composite_def
  by (simp only: relabel_rules relabel_call [OF assms(1)]
      relabel_adaptivePredict_4 [OF assms] relabel_adaptivePredict_21 [OF assms]
      cong del: if_weak_cong)

lemma relabel_range_rule:
  assumes "\<And>r p ts. relabel h (rec r p ts) = rec' r p ts" and "relabels h d d'"
  shows "relabel h (range_rule rec d ts) = range_rule rec' d' ts"
  using assms(2) unfolding range_rule_def
  by (simp only: relabel_rules relabel_call [OF assms(1)]
      relabel_adaptivePredict_4 [OF assms] relabel_adaptivePredict_21 [OF assms]
      cong del: if_weak_cong)

lemma relabel_array:
  assumes "\<And>r p ts. relabel h (rec r p ts) = rec' r p ts" and "relabels h d d'"
  shows "relabel h (array rec d ts) = array rec' d' ts"
  using assms(2) unfolding array_def
  by (simp only: relabel_rules relabel_call [OF assms(1)]
      relabel_adaptivePredict_4 [OF assms] relabel_adaptivePredict_21 [OF assms]
      cong del: if_weak_cong)

lemma relabel_table:
  assumes "\<And>r p ts. relabel h (rec r p ts) = rec' r p ts" and "relabels h d d'"
  shows "relabel h (table rec d ts) = table rec' d' ts"
  using assms(2) unfolding table_def
  by (simp only: relabel_rules relabel_call [OF assms(1)]
      relabel_adaptivePredict_4 [OF assms] relabel_adaptivePredict_21 [OF assms]
      cong del: if_weak_cong)

lemma relabel_association:
  assumes "\<And>r p ts. relabel h (rec r p ts) = rec' r p ts" and "relabels h d d'"
  shows "relabel h (association rec d ts) = association rec' d' ts"
  using assms(2) unfolding association_def
  by (simp only: relabel_rules relabel_call [OF assms(1)]
      relabel_adaptivePredict_4 [OF assms] relabel_adaptivePredict_21 [OF assms]
      cong del: if_weak_cong)

lemma relabel_block:
  assumes "\<And>r p ts. relabel h (rec r p ts) = rec' r p ts" and "relabels h d d'"
  shows "relabel h (block rec d ts) = block rec' d' ts"
  using assms(2) unfolding block_def
  by (simp only: relabel_rules relabel_call [OF assms(1)]
      relabel_adaptivePredict_4 [OF assms] relabel_adaptivePredict_21 [OF assms]
      cong del: if_weak_cong)

lemma relabel_procedure:
  assumes "\<And>r p ts. relabel h (rec r p ts) = rec' r p ts" and "relabels h d d'"
  shows "relabel h (procedure rec d ts) = procedure rec' d' ts"
  using assms(2) unfolding procedure_def
  by (simp only: relabel_rules relabel_call [OF assms(1)]
      relabel_adaptivePredict_4 [OF assms] relabel_adaptivePredict_21 [OF assms]
      cong del: if_weak_cong)

lemma relabel_statement:
  assumes "\<And>r p ts. relabel h (rec r p ts) = rec' r p ts" and "relabels h d d'"
  shows "relabel h (statement rec d ts) = statement rec' d' ts"
  using assms(2) unfolding statement_def
  by (simp only: relabel_rules relabel_call [OF assms(1)]
      relabel_adaptivePredict_4 [OF assms] relabel_adaptivePredict_21 [OF assms]
      cong del: if_weak_cong)

lemma relabel_handleClause:
  assumes "\<And>r p ts. relabel h (rec r p ts) = rec' r p ts" and "relabels h d d'"
  shows "relabel h (handleClause rec d ts) = handleClause rec' d' ts"
  using assms(2) unfolding handleClause_def
  by (simp only: relabel_rules relabel_call [OF assms(1)]
      relabel_adaptivePredict_4 [OF assms] relabel_adaptivePredict_21 [OF assms]
      cong del: if_weak_cong)

lemma relabel_finishClause:
  assumes "\<And>r p ts. relabel h (rec r p ts) = rec' r p ts" and "relabels h d d'"
  shows "relabel h (finishClause rec d ts) = finishClause rec' d' ts"
  using assms(2) unfolding finishClause_def
  by (simp only: relabel_rules relabel_call [OF assms(1)]
      relabel_adaptivePredict_4 [OF assms] relabel_adaptivePredict_21 [OF assms]
      cong del: if_weak_cong)

lemma relabel_evaluateClause:
  assumes "\<And>r p ts. relabel h (rec r p ts) = rec' r p ts" and "relabels h d d'"
  shows "relabel h (evaluateClause rec d ts) = evaluateClause rec' d' ts"
  using assms(2) unfolding evaluateClause_def
  by (simp only: relabel_rules relabel_call [OF assms(1)]
      relabel_adaptivePredict_4 [OF assms] relabel_adaptivePredict_21 [OF assms]
      cong del: if_weak_cong)

lemma relabel_checkoutClause:
  assumes "\<And>r p ts. relabel h (rec r p ts) = rec' r p ts" and "relabels h d d'"
  shows "relabel h (checkoutClause rec d ts) = checkoutClause rec' d' ts"
  using assms(2) unfolding checkoutClause_def
  by (simp only: relabel_rules relabel_call [OF assms(1)]
      relabel_adaptivePredict_4 [OF assms] relabel_adaptivePredict_21 [OF assms]
      cong del: if_weak_cong)

lemma relabel_saveClause:
  assumes "\<And>r p ts. relabel h (rec r p ts) = rec' r p ts" and "relabels h d d'"
  shows "relabel h (saveClause rec d ts) = saveClause rec' d' ts"
  using assms(2) unfolding saveClause_def
  by (simp only: relabel_rules relabel_call [OF assms(1)]
      relabel_adaptivePredict_4 [OF assms] relabel_adaptivePredict_21 [OF assms]
      cong del: if_weak_cong)

lemma relabel_discardClause:
  assumes "\<And>r p ts. relabel h (rec r p ts) = rec' r p ts" and "relabels h d d'"
  shows "relabel h (discardClause rec d ts) = discardClause rec' d' ts"
  using assms(2) unfolding discardClause_def
  by (simp only: relabel_rules relabel_call [OF assms(1)]
      relabel_adaptivePredict_4 [OF assms] relabel_adaptivePredict_21 [OF assms]
      cong del: if_weak_cong)

lemma relabel_commitClause:
  assumes "\<And>r p ts. relabel h (rec r p ts) = rec' r p ts" and "relabels h d d'"
  shows "relabel h (commitClause rec d ts) = commitClause rec' d' ts"
  using assms(2) unfolding commitClause_def
  by (simp only: relabel_rules relabel_call [OF assms(1)]
      relabel_adaptivePredict_4 [OF assms] relabel_adaptivePredict_21 [OF assms]
      cong del: if_weak_cong)

lemma relabel_publishClause:
  assumes "\<And>r p ts. relabel h (rec r p ts) = rec' r p ts" and "relabels h d d'"
  shows "relabel h (publishClause rec d ts) = publishClause rec' d' ts"
  using assms(2) unfolding publishClause_def
  by (simp only: relabel_rules relabel_call [OF assms(1)]
      relabel_adaptivePredict_4 [OF assms] relabel_adaptivePredict_21 [OF assms]
      cong del: if_weak_cong)

lemma relabel_queueClause:
  assumes "\<And>r p ts. relabel h (rec r p ts) = rec' r p ts" and "relabels h d d'"
  shows "relabel h (queueClause rec d ts) = queueClause rec' d' ts"
  using assms(2) unfolding queueClause_def
  by (simp only: relabel_rules relabel_call [OF assms(1)]
      relabel_adaptivePredict_4 [OF assms] relabel_adaptivePredict_21 [OF assms]
      cong del: if_weak_cong)

lemma relabel_waitClause:
  assumes "\<And>r p ts. relabel h (rec r p ts) = rec' r p ts" and "relabels h d d'"
  shows "relabel h (waitClause rec d ts) = waitClause rec' d' ts"
  using assms(2) unfolding waitClause_def
  by (simp only: relabel_rules relabel_call [OF assms(1)]
      relabel_adaptivePredict_4 [OF assms] relabel_adaptivePredict_21 [OF assms]
      cong del: if_weak_cong)

lemma relabel_ifClause:
  assumes "\<And>r p ts. relabel h (rec r p ts) = rec' r p ts" and "relabels h d d'"
  shows "relabel h (ifClause rec d ts) = ifClause rec' d' ts"
  using assms(2) unfolding ifClause_def
  by (simp only: relabel_rules relabel_call [OF assms(1)]
      relabel_adaptivePredict_4 [OF assms] relabel_adaptivePredict_21 [OF assms]
      cong del: if_weak_cong)

lemma relabel_selectClause:
  assumes "\<And>r p ts. relabel h (rec r p ts) = rec' r p ts" and "relabels h d d'"
  shows "relabel h (selectClause rec d ts) = selectClause rec' d' ts"
  using assms(2) unfolding selectClause_def
  by (simp only: relabel_rules relabel_call [OF assms(1)]
      relabel_adaptivePredict_4 [OF assms] relabel_adaptivePredict_21 [OF assms]
      cong del: if_weak_cong)

lemma relabel_whileClause:
  assumes "\<And>r p ts. relabel h (rec r p ts) = rec' r p ts" and "relabels h d d'"
  shows "relabel h (whileClause rec d ts) = whileClause rec' d' ts"
  using assms(2) unfolding whileClause_def
  by (simp only: relabel_rules relabel_call [OF assms(1)]
      relabel_adaptivePredict_4 [OF assms] relabel_adaptivePredict_21 [OF assms]
      cong del: if_weak_cong)

lemma relabel_withClause:
  assumes "\<And>r p ts. relabel h (rec r p ts) = rec' r p ts" and "relabels h d d'"
  shows "relabel h (withClause rec d ts) = withClause rec' d' ts"
  using assms(2) unfolding withClause_def
  by (simp only: relabel_rules relabel_call [OF assms(1)]
      relabel_adaptivePredict_4 [OF assms] relabel_adaptivePredict_21 [OF assms]
      cong del: if_weak_cong)

lemma relabel_continueClause:
  assumes "\<And>r p ts. relabel h (rec r p ts) = rec' r p ts" and "relabels h d d'"
  shows "relabel h (continueClause rec d ts) = continueClause rec' d' ts"
  using assms(2) unfolding continueClause_def
  by (simp only: relabel_rules relabel_call [OF assms(1)]
      relabel_adaptivePredict_4 [OF assms] relabel_adaptivePredict_21 [OF assms]
      cong del: if_weak_cong)

lemma relabel_breakClause:
  assumes "\<And>r p ts. relabel h (rec r p ts) = rec' r p ts" and "relabels h d d'"
  shows "relabel h (breakClause rec d ts) = breakClause rec' d' ts"
  using assms(2) unfolding breakClause_def
  by (simp only: relabel_rules relabel_call [OF assms(1)]
      relabel_adaptivePredict_4 [OF assms] relabel_adaptivePredict_21 [OF assms]
      cong del: if_weak_cong)

lemma relabel_returnClause:
  assumes "\<And>r p ts. relabel h (rec r p ts) = rec' r p ts" and "relabels h d d'"
  shows "relabel h (returnClause rec d ts) = returnClause rec' d' ts"
  using assms(2) unfolding returnClause_def
  by (simp only: relabel_rules relabel_call [OF assms(1)]
      relabel_adaptivePredict_4 [OF assms] relabel_adaptivePredict_21 [OF assms]
      cong del: if_weak_cong)

lemma relabel_throwClause:
  assumes "\<And>r p ts. relabel h (rec r p ts) = rec' r p ts" and "relabels h d d'"
  shows "relabel h (throwClause rec d ts) = throwClause rec' d' ts"
  using assms(2) unfolding throwClause_def
  by (simp only: relabel_rules relabel_call [OF assms(1)]
      relabel_adaptivePredict_4 [OF assms] relabel_adaptivePredict_21 [OF assms]
      cong del: if_weak_cong)

lemma relabel_indices:
  assumes "\<And>r p ts. relabel h (rec r p ts) = rec' r p ts" and "relabels h d d'"
  shows "relabel h (indices rec d ts) = indices rec' d' ts"
  using assms(2) unfolding indices_def
  by (simp only: relabel_rules relabel_call [OF assms(1)]
      relabel_adaptivePredict_4 [OF assms] relabel_adaptivePredict_21 [OF assms]
      cong del: if_weak_cong)

lemma relabel_invocation:
  assumes "\<And>r p ts. relabel h (rec r p ts) = rec' r p ts" and "relabels h d d'"
  shows "relabel h (invocation rec d ts) = invocation rec' d' ts"
  using assms(2) unfolding invocation_def
  by (simp only: relabel_rules relabel_call [OF assms(1)]
      relabel_adaptivePredict_4 [OF assms] relabel_adaptivePredict_21 [OF assms]
      cong del: if_weak_cong)

lemma relabel_element:
  assumes "\<And>r p ts. relabel h (rec r p ts) = rec' r p ts" and "relabels h d d'"
  shows "relabel h (element rec d ts) = element rec' d' ts"
  using assms(2) unfolding element_def
  by (simp only: relabel_rules relabel_call [OF assms(1)]
      relabel_adaptivePredict_4 [OF assms] relabel_adaptivePredict_21 [OF assms]
      cong del: if_weak_cong)

lemma relabel_imaginary:
  assumes "\<And>r p ts. relabel h (rec r p ts) = rec' r p ts" and "relabels h d d'"
  shows "relabel h (imaginary rec d ts) = imaginary rec' d' ts"
  using assms(2) unfolding imaginary_def
  by (simp only: relabel_rules relabel_call [OF assms(1)]
      relabel_adaptivePredict_4 [OF assms] relabel_adaptivePredict_21 [OF assms]
      cong del: if_weak_cong)

lemma relabel_number:
  assumes "\<And>r p ts. relabel h (rec r p ts) = rec' r p ts" and "relabels h d d'"
  shows "relabel h (number rec d ts) = number rec' d' ts"
  using assms(2) unfolding number_def
  by (simp only: relabel_rules relabel_call [OF assms(1)]
      relabel_adaptivePredict_4 [OF assms] relabel_adaptivePredict_21 [OF assms]
      cong del: if_weak_cong)

lemma relabel_percent:
  assumes "\<And>r p ts. relabel h (rec r p ts) = rec' r p ts" and "relabels h d d'"
  shows "relabel h (percent rec d ts) = percent rec' d' ts"
  using assms(2) unfolding percent_def
  by (simp only: relabel_rules relabel_call [OF assms(1)]
      relabel_adaptivePredict_4 [OF assms] relabel_adaptivePredict_21 [OF assms]
      cong del: if_weak_cong)

lemma relabel_expression:
  assumes "\<And>r p ts. relabel h (rec r p ts) = rec' r p ts" and "relabels h d d'"
  shows "relabel h (expression rec d p ts) = expression rec' d' p ts"
  using assms(2) unfolding expression_def expression_primary_def expression_operator_def
  by (simp only: relabel_rules relabel_call [OF assms(1)]
      relabel_adaptivePredict_4 [OF assms] relabel_adaptivePredict_21 [OF assms]
      cong del: if_weak_cong)

lemma relabel_rule_method:
  assumes "\<And>r p ts. relabel h (rec r p ts) = rec' r p ts" and "relabels h d d'"
  shows "relabel h (rule_method rec d r p ts) = rule_method rec' d' r p ts"
  using assms(2) unfolding rule_method_def
  by (simp only: relabel_if relabel_noViableAlt relabel_token_rule
      relabel_probability relabel_real_rule relabel_template
      relabel_text_rule relabel_document [OF assms] relabel_component [OF assms]
      relabel_structure_rule [OF assms] relabel_parameters [OF assms] relabel_composite [OF assms]
      relabel_range_rule [OF assms] relabel_array [OF assms] relabel_table [OF assms]
      relabel_association [OF assms] relabel_block [OF assms] relabel_procedure [OF assms]
      relabel_statement [OF assms] relabel_handleClause [OF assms] relabel_finishClause [OF assms]
      relabel_evaluateClause [OF assms] relabel_checkoutClause [OF assms] relabel_saveClause [OF assms]
      relabel_discardClause [OF assms] relabel_commitClause [OF assms] relabel_publishClause [OF assms]
      relabel_queueClause [OF assms] relabel_waitClause [OF assms] relabel_ifClause [OF assms]
      relabel_selectClause [OF assms] relabel_whileClause [OF assms] relabel_withClause [OF assms]
      relabel_continueClause [OF assms] relabel_breakClause [OF assms] relabel_returnClause [OF assms]
      relabel_throwClause [OF assms] relabel_indices [OF assms] relabel_invocation [OF assms]
      relabel_element [OF assms] relabel_imaginary [OF assms] relabel_number [OF assms]
      relabel_percent [OF assms] relabel_expression [OF assms]
      cong del: if_weak_cong)

lemma relabel_rule_catch:
  assumes "relabels h d d'"
  shows "relabel h (rule_catch d x) = rule_catch d' (relabel h x)"
proof (cases x)
  case (Inl s)
  then show ?thesis
    by (cases s)
       (simp_all add: rule_catch_def recover_def relabel_def relabel_reportError [OF assms])
next
  case (Inr v)
  then show ?thesis
    by (simp add: rule_catch_def relabel_def)
qed

lemma relabel_BaliLanguageParser:
  assumes "relabels h d d'"
  shows "relabel h (BaliLanguageParser n d r p ts) = BaliLanguageParser n d' r p ts"
proof (induction n arbitrary: r p ts)
  case 0
  show ?case
    by (simp add: relabel_OutOfFuel)
next
  case (Suc n)
  show ?case
    by (simp add: relabel_rule_catch [OF assms] relabel_rule_method [OF Suc assms])
qed

lemma relabels_mute: "relabels (\<lambda>c. []) d False"
  by (simp add: relabels_def syntaxError_def)


lemma muted_BaliLanguageParser:
  "BaliLanguageParser n False r p ts = relabel (\<lambda>c. []) (BaliLanguageParser n d r p ts)"
  by (simp add: relabel_BaliLanguageParser [OF relabels_mute])



lemma parseRule_debug:
  "fst (parseRule r g s d) = fst (parseRule r g s False)"
  unfolding parseRule_def muted_BaliLanguageParser [of _ _ _ _ d]
  by (simp add: relabel_def split: sum.splits signal.splits prod.splits)

lemma parseRule_quiet:
  "snd (parseRule r g s False) = []"
proof -
  let ?x = "BaliLanguageParser (fuel (tokenize s)) False r 0 (tokenize s)"
  have mute: "relabel (\<lambda>c. []) ?x = ?x"
    by (rule relabel_BaliLanguageParser [OF relabels_mute])
  show ?thesis
  proof (cases ?x)
    case (Inl e)
    with mute show ?thesis
      by (cases e) (simp_all add: parseRule_def relabel_def)
  next
    case (Inr v)
    then show ?thesis
      by (simp add: parseRule_def split: prod.splits)
  qed
qed

subsection \<open>The tokens of a returned parse tree\<close>


lemma LA_Inr: "LA d 1 ts = Inr k \<Longrightarrow> k = fst (LT ts)"
  by (cases ts; cases "fst (hd ts)") (auto simp: LT_def lexer_recover_def split: prod.splits)














lemma keeps_Inr: "keeps Inr"
  by (simp add: keeps_def)



lemma keeps_eta: "keeps f \<Longrightarrow> keeps (\<lambda>st. f st)"
  by simp
































































subsection \<open>Errors\<close>




text \<open>
  C9. For every rule that an entry point runs and every source, the outcome with the
  debug flag on (the tree of nodes returned, or the error thrown) is the outcome with the
  flag off; with the flag off nothing is printed. \<open>parseDocument\<close> is the entry point for
  a whole document.
\<close>

theorem debug_same_outcome:
  "fst (parseRule r g source True) = fst (parseRule r g source False) \<and>
   snd (parseRule r g source False) = [] \<and>
   fst (parseDocument g source True) = fst (parseDocument g source False)"
  by (simp add: parseDocument_def parseRule_debug [of _ _ _ True] parseRule_quiet)


section \<open>Properties of the trees of nodes\<close>

subsection \<open>Operators\<close>

lemma parse_2_plus_3_times_4:
  "returned (parseExpression g ''2 + 3 * 4'' debug) =
     Some (operation ''ARITHMETIC_EXPRESSION'' ''*''
       [operation ''ARITHMETIC_EXPRESSION'' ''+'' [num ''2'', num ''3''], num ''4''])"
  by code_simp

lemma parse_2_times_3_plus_4:
  "returned (parseExpression g ''2 * 3 + 4'' debug) =
     Some (operation ''ARITHMETIC_EXPRESSION'' ''+''
       [operation ''ARITHMETIC_EXPRESSION'' ''*'' [num ''2'', num ''3''], num ''4''])"
  by code_simp

lemma parse_2_pow_3_pow_2:
  "returned (parseExpression g ''2 ^ 3 ^ 2'' debug) =
     Some (tree ''EXPONENTIAL_EXPRESSION''
       [num ''2'', tree ''EXPONENTIAL_EXPRESSION'' [num ''3'', num ''2'']])"
  by code_simp

lemma parse_2_times_3_pow_2:
  "returned (parseExpression g ''2 * 3 ^ 2'' debug) =
     Some (operation ''ARITHMETIC_EXPRESSION'' ''*''
       [num ''2'', tree ''EXPONENTIAL_EXPRESSION'' [num ''3'', num ''2'']])"
  by code_simp

lemma parse_a_default_b_default_c:
  "returned (parseExpression g ''a ? b ? c'' debug) =
     Some (tree ''DEFAULT_EXPRESSION''
       [tree ''DEFAULT_EXPRESSION'' [var ''a'', var ''b''], var ''c''])"
  by code_simp

lemma parse_a_default_b_or_c:
  "returned (parseExpression g ''a ? b or c'' debug) =
     Some (tree ''DEFAULT_EXPRESSION''
       [var ''a'', operation ''LOGICAL_EXPRESSION'' ''or'' [var ''b'', var ''c'']])"
  by code_simp

lemma parse_a_or_b_default_c:
  "returned (parseExpression g ''a or b ? c'' debug) =
     Some (tree ''DEFAULT_EXPRESSION''
       [operation ''LOGICAL_EXPRESSION'' ''or'' [var ''a'', var ''b''], var ''c''])"
  by code_simp

text \<open>
  C2, as the claim states it, fails: in the tree of \<open>2 + 3 * 4\<close> the right operand is not the
  product.
\<close>

theorem precedence_counterexample:
  "returned (parseExpression no_growth ''2 + 3 * 4'' False) \<noteq>
     Some (operation ''ARITHMETIC_EXPRESSION'' ''+''
       [num ''2'', operation ''ARITHMETIC_EXPRESSION'' ''*'' [num ''3'', num ''4'']])"
  by (simp add: parse_2_plus_3_times_4 operation_def)

text \<open>
  C2, amended. The operators \<open>*\<close>, \<open>/\<close>, \<open>//\<close>, \<open>+\<close> and \<open>-\<close> are one alternative of the rule
  \<open>expression\<close>, with one precedence, and associate to the left: \<open>2 + 3 * 4\<close> is the product
  of \<open>2 + 3\<close> and \<open>4\<close>, and \<open>2 * 3 + 4\<close> is the sum of \<open>2 * 3\<close> and \<open>4\<close>. The operator \<open>^\<close>
  binds tighter and associates to the right: \<open>2 ^ 3 ^ 2\<close> is \<open>2 ^ (3 ^ 2)\<close> and \<open>2 * 3 ^ 2\<close>
  is \<open>2 * (3 ^ 2)\<close>.
\<close>

theorem arithmetic_precedence:
  "returned (parseExpression g ''2 + 3 * 4'' debug) =
     Some (operation ''ARITHMETIC_EXPRESSION'' ''*''
       [operation ''ARITHMETIC_EXPRESSION'' ''+'' [num ''2'', num ''3''], num ''4'']) \<and>
   returned (parseExpression g ''2 * 3 + 4'' debug) =
     Some (operation ''ARITHMETIC_EXPRESSION'' ''+''
       [operation ''ARITHMETIC_EXPRESSION'' ''*'' [num ''2'', num ''3''], num ''4'']) \<and>
   returned (parseExpression g ''2 ^ 3 ^ 2'' debug) =
     Some (tree ''EXPONENTIAL_EXPRESSION''
       [num ''2'', tree ''EXPONENTIAL_EXPRESSION'' [num ''3'', num ''2'']]) \<and>
   returned (parseExpression g ''2 * 3 ^ 2'' debug) =
     Some (operation ''ARITHMETIC_EXPRESSION'' ''*''
       [num ''2'', tree ''EXPONENTIAL_EXPRESSION'' [num ''3'', num ''2'']])"
  by (intro conjI parse_2_plus_3_times_4 parse_2_times_3_plus_4 parse_2_pow_3_pow_2
      parse_2_times_3_pow_2)

text \<open>
  C5, as the claim states it, fails: the tree of \<open>a ? b ? c\<close> is not that of \<open>a ? (b ? c)\<close>.
\<close>

theorem default_counterexample:
  "returned (parseExpression no_growth ''a ? b ? c'' False) \<noteq>
     Some (tree ''DEFAULT_EXPRESSION''
       [var ''a'', tree ''DEFAULT_EXPRESSION'' [var ''b'', var ''c'']])"
  by (simp add: parse_a_default_b_default_c tree_def var_def)

text \<open>
  C5, amended. The operator \<open>?\<close> has the lowest precedence, below the logical operators
  (\<open>a ? b or c\<close> is \<open>a ? (b or c)\<close> and \<open>a or b ? c\<close> is \<open>(a or b) ? c\<close>), and it associates to
  the left: \<open>a ? b ? c\<close> is \<open>(a ? b) ? c\<close>.
\<close>

theorem default_precedence:
  "returned (parseExpression g ''a ? b ? c'' debug) =
     Some (tree ''DEFAULT_EXPRESSION''
       [tree ''DEFAULT_EXPRESSION'' [var ''a'', var ''b''], var ''c'']) \<and>
   returned (parseExpression g ''a ? b or c'' debug) =
     Some (tree ''DEFAULT_EXPRESSION''
       [var ''a'', operation ''LOGICAL_EXPRESSION'' ''or'' [var ''b'', var ''c'']]) \<and>
   returned (parseExpression g ''a or b ? c'' debug) =
     Some (tree ''DEFAULT_EXPRESSION''
       [operation ''LOGICAL_EXPRESSION'' ''or'' [var ''a'', var ''b''], var ''c''])"
  by (intro conjI parse_a_default_b_default_c parse_a_default_b_or_c parse_a_or_b_default_c)

subsection \<open>Statements\<close>

lemma statement_contexts:
  "clauses (parseTree RULE_procedure ''$x := 1 handle $e matching 2 with {} finish with {}'') =
     [''EvaluateClauseContext'', ''HandleClauseContext'', ''FinishClauseContext'']"
  by code_simp

lemma statement_with_finish:
  "returned (parseProcedure g ''$x := 1 handle $e matching 2 with {} finish with {}'' debug) =
     Some (tree ''PROCEDURE'' [tree ''STATEMENT''
       [tree ''EVALUATE_CLAUSE'' [Terminal ''SYMBOL'' ''$x'' None, num ''1''],
        tree ''HANDLE_CLAUSE''
          [Terminal ''SYMBOL'' ''$e'' None, num ''2'', tree ''BLOCK'' [tree ''PROCEDURE'' []]]]])"
  by code_simp

lemma statement_without_finish:
  "returned (parseProcedure g ''$x := 1 handle $e matching 2 with {}'' debug) =
     Some (tree ''PROCEDURE'' [tree ''STATEMENT''
       [tree ''EVALUATE_CLAUSE'' [Terminal ''SYMBOL'' ''$x'' None, num ''1''],
        tree ''HANDLE_CLAUSE''
          [Terminal ''SYMBOL'' ''$e'' None, num ''2'', tree ''BLOCK'' [tree ''PROCEDURE'' []]]]])"
  by code_simp

lemma statement_two_handles:
  "returned (parseProcedure g
       ''$x := 1 handle $e matching 2 with {} handle $f matching 3 with {}'' debug) =
     Some (tree ''PROCEDURE'' [tree ''STATEMENT''
       [tree ''EVALUATE_CLAUSE'' [Terminal ''SYMBOL'' ''$x'' None, num ''1''],
        tree ''HANDLE_CLAUSE''
          [Terminal ''SYMBOL'' ''$e'' None, num ''2'', tree ''BLOCK'' [tree ''PROCEDURE'' []]],
        tree ''HANDLE_CLAUSE''
          [Terminal ''SYMBOL'' ''$f'' None, num ''3'', tree ''BLOCK'' [tree ''PROCEDURE'' []]]]])"
  by code_simp

lemma typed_append: "typed classes (Rule n l (cs @ ks)) = typed classes (Rule n l cs) @ filter (\<lambda>k. ctx_name k \<in> set classes) ks"
  by (simp add: typed_def)

lemma visitStatement_finish:
  "visitStatement v g d r (Rule n l (main # handles @ [Rule ''FinishClauseContext'' l' ks])) =
   visitStatement v g d r (Rule n l (main # handles))"
  by (simp add: visitStatement_def mainClauseOf_def first_def typed_def)

text \<open>
  C6, as the claim states it, fails: the finish clause of a statement is not in the tree
  of nodes, which is the tree of the statement without it.
\<close>

theorem finish_clause_counterexample:
  "returned (parseProcedure no_growth
       ''$x := 1 handle $e matching 2 with {} finish with {}'' False) =
   returned (parseProcedure no_growth ''$x := 1 handle $e matching 2 with {}'' False) \<and>
   returned (parseProcedure no_growth
       ''$x := 1 handle $e matching 2 with {} finish with {}'' False) \<noteq> None"
  by (simp add: statement_with_finish statement_without_finish)

text \<open>
  C6, amended. The parser accepts a statement of the shape main clause, handle clauses,
  optional finish clause: the statement context of the example has the three clauses as
  its children. The visitor adds the main clause and then each handle clause, in order,
  as children of the \<open>STATEMENT\<close> node, none inside another. It does not read the finish
  clause: a statement context with a finish clause at its end gives the node of the
  statement without it.
\<close>

theorem statement_clauses:
  "clauses (parseTree RULE_procedure ''$x := 1 handle $e matching 2 with {} finish with {}'') =
     [''EvaluateClauseContext'', ''HandleClauseContext'', ''FinishClauseContext''] \<and>
   returned (parseProcedure g
       ''$x := 1 handle $e matching 2 with {} handle $f matching 3 with {}'' debug) =
     Some (tree ''PROCEDURE'' [tree ''STATEMENT''
       [tree ''EVALUATE_CLAUSE'' [Terminal ''SYMBOL'' ''$x'' None, num ''1''],
        tree ''HANDLE_CLAUSE''
          [Terminal ''SYMBOL'' ''$e'' None, num ''2'', tree ''BLOCK'' [tree ''PROCEDURE'' []]],
        tree ''HANDLE_CLAUSE''
          [Terminal ''SYMBOL'' ''$f'' None, num ''3'', tree ''BLOCK'' [tree ''PROCEDURE'' []]]]]) \<and>
   returned (parseProcedure g ''$x := 1 handle $e matching 2 with {} finish with {}'' debug) =
     Some (tree ''PROCEDURE'' [tree ''STATEMENT''
       [tree ''EVALUATE_CLAUSE'' [Terminal ''SYMBOL'' ''$x'' None, num ''1''],
        tree ''HANDLE_CLAUSE''
          [Terminal ''SYMBOL'' ''$e'' None, num ''2'', tree ''BLOCK'' [tree ''PROCEDURE'' []]]]]) \<and>
   visitStatement v g d r (Rule n l (main # handles @ [Rule ''FinishClauseContext'' l' ks])) =
     visitStatement v g d r (Rule n l (main # handles))"
  by (intro conjI statement_contexts statement_two_handles statement_with_finish
      visitStatement_finish)

subsection \<open>Collections\<close>

lemma inline_list:
  "returned (parseDocument g ''[1, 2, 3]'' debug) =
     Some (BaliDocument None
       (tree ''COMPONENT'' [tree ''STRUCTURE'' [tree ''LIST'' [num ''1'', num ''2'', num ''3'']]]) [])"
  by code_simp

lemma list_forms:
  "parseDocument g ''[1, 2, 3]'' debug =
   parseDocument g (''['' @ newline @ ''1'' @ newline @ ''2'' @ newline @ ''3'' @ newline @ '']'') debug"
  by code_simp

lemma empty_list:
  "returned (parseDocument g ''[]'' debug) =
     Some (BaliDocument None (tree ''COMPONENT'' [tree ''STRUCTURE'' [tree ''LIST'' []]]) [])"
  by code_simp

lemma empty_catalog:
  "returned (parseDocument g ''[:]'' debug) =
     Some (BaliDocument None (tree ''COMPONENT'' [tree ''STRUCTURE'' [tree ''CATALOG'' []]]) [])"
  by code_simp

text \<open>
  C7. The inline form \<open>[1, 2, 3]\<close> and the form with one item on each line give the same
  outcome, sizes included: a \<open>LIST\<close> node with the three items and no mark of the form
  written. \<open>[]\<close> gives a \<open>LIST\<close> node without children and \<open>[:]\<close> a \<open>CATALOG\<close> node without
  children.
\<close>

theorem collection_forms:
  "parseDocument g ''[1, 2, 3]'' debug =
     parseDocument g
       (''['' @ newline @ ''1'' @ newline @ ''2'' @ newline @ ''3'' @ newline @ '']'') debug \<and>
   returned (parseDocument g ''[1, 2, 3]'' debug) =
     Some (BaliDocument None
       (tree ''COMPONENT'' [tree ''STRUCTURE'' [tree ''LIST'' [num ''1'', num ''2'', num ''3'']]]) []) \<and>
   returned (parseDocument g ''[]'' debug) =
     Some (BaliDocument None (tree ''COMPONENT'' [tree ''STRUCTURE'' [tree ''LIST'' []]]) []) \<and>
   returned (parseDocument g ''[:]'' debug) =
     Some (BaliDocument None (tree ''COMPONENT'' [tree ''STRUCTURE'' [tree ''CATALOG'' []]]) [])"
  by (intro conjI list_forms inline_list empty_list empty_catalog)

end
